theory Spec2Isabelle
  imports Complex_Main
begin

section \<open>Python values shared by the three source files\<close>

text \<open>
  Exceptions of the source are values: a function that can raise returns
  \<open>error + 'a\<close>, with \<open>Inl\<close> for the exception. The payload is the name or message
  the exception carries.
\<close>

datatype error =
    ValueError string
  | RuntimeError string
  | NameError string
  | AttributeError string
  | IndexError string
  | KeyError string
  | ZeroDivisionError
  | UnboundLocalError string
  | TypeError string
  | OverflowError string

text \<open>Indexing a Python list with a non-negative index.\<close>

definition py_index :: "'a list \<Rightarrow> nat \<Rightarrow> error + 'a" where
  "py_index xs i =
     (if i < length xs then Inr (xs ! i) else Inl (IndexError ''list index out of range''))"

section \<open>scattering1d/frontend/torch_frontend.py: path enumeration and sizes\<close>

text \<open>
  \<open>calibrate_scattering_filters(J, Q)\<close> lives in \<open>kymatio.scattering1d.filter_bank\<close>,
  which is not part of the sources at hand. It is a parameter of every function that calls
  it; what it returns is the 7-tuple the callers unpack. Floating-point frequencies and
  bandwidths are reals here, the dyadic scales are Python integers.
\<close>

record calibration =
  sigma_low :: real
  xi1s :: "real list"
  sigma1s :: "real list"
  j1s :: "int list"
  xi2s :: "real list"
  sigma2s :: "real list"
  j2s :: "int list"

type_synonym calibrator = "int \<Rightarrow> int \<Rightarrow> error + calibration"

text \<open>
  The three parallel sequences of one order have one length (the calibrator appends to the
  three of them together).
\<close>

definition parallel :: "calibration \<Rightarrow> bool" where
  "parallel cal \<longleftrightarrow>
     length (sigma1s cal) = length (xi1s cal) \<and> length (j1s cal) = length (xi1s cal) \<and>
     length (sigma2s cal) = length (xi2s cal) \<and> length (j2s cal) = length (xi2s cal)"

subsection \<open>compute_meta_scattering\<close>

text \<open>
  While the loops run, every field of \<open>meta\<close> is a list of three lists, one per order:
  \<open>[[], [], []]\<close>, indexed by the constants 0, 1 and 2 only.
\<close>

record 'a by_order =
  at0 :: "'a list"
  at1 :: "'a list"
  at2 :: "'a list"

definition empty3 :: "'a by_order" where
  "empty3 = \<lparr>at0 = [], at1 = [], at2 = []\<rparr>"

definition append0 :: "'a \<Rightarrow> 'a by_order \<Rightarrow> 'a by_order" where
  "append0 v t = t\<lparr>at0 := at0 t @ [v]\<rparr>"

definition append1 :: "'a \<Rightarrow> 'a by_order \<Rightarrow> 'a by_order" where
  "append1 v t = t\<lparr>at1 := at1 t @ [v]\<rparr>"

definition append2 :: "'a \<Rightarrow> 'a by_order \<Rightarrow> 'a by_order" where
  "append2 v t = t\<lparr>at2 := at2 t @ [v]\<rparr>"

text \<open>\<open>value[0] + value[1] + value[2]\<close>\<close>

definition flatten3 :: "'a by_order \<Rightarrow> 'a list" where
  "flatten3 t = at0 t @ at1 t @ at2 t"

text \<open>A tuple of the source is a list; \<open>order\<close> holds plain integers.\<close>

record meta_lists =
  order_l :: "nat by_order"
  xi_l :: "real list by_order"
  sigma_l :: "real list by_order"
  j_l :: "int list by_order"
  n_l :: "nat list by_order"
  key_l :: "nat list by_order"

text \<open>The dictionary after the six \<open>append\<close> calls on index 0.\<close>

definition meta_init :: meta_lists where
  "meta_init =
     \<lparr>order_l = append0 0 empty3, xi_l = append0 [] empty3, sigma_l = append0 [] empty3,
      j_l = append0 [] empty3, n_l = append0 [] empty3, key_l = append0 [] empty3\<rparr>"

text \<open>
  \<open>enumerate(zip(xi1s, sigma1s, j1s))\<close> and \<open>enumerate(zip(xi2s, sigma2s, j2s))\<close>:
  a \<open>zip\<close> stops with the shortest of its sequences.
\<close>

definition rows1 :: "calibration \<Rightarrow> (nat \<times> real \<times> real \<times> int) list" where
  "rows1 cal = enumerate 0 (zip (xi1s cal) (zip (sigma1s cal) (j1s cal)))"

definition rows2 :: "calibration \<Rightarrow> (nat \<times> real \<times> real \<times> int) list" where
  "rows2 cal = enumerate 0 (zip (xi2s cal) (zip (sigma2s cal) (j2s cal)))"

text \<open>
  One round of the inner loop: \<open>(n1, (xi1, sigma1, j1))\<close> is the row of the outer loop,
  \<open>(n2, (xi2, sigma2, j2))\<close> the row of the inner one.
\<close>

definition order2_step ::
  "nat \<times> real \<times> real \<times> int \<Rightarrow> meta_lists \<Rightarrow> nat \<times> real \<times> real \<times> int \<Rightarrow> meta_lists" where
  "order2_step r1 m r2 =
     (case r1 of (n1, xi1, sigma1, j1) \<Rightarrow>
      case r2 of (n2, xi2, sigma2, j2) \<Rightarrow>
        if j2 > j1 then
          m\<lparr>order_l := append2 2 (order_l m),
            xi_l := append2 [xi1, xi2] (xi_l m),
            sigma_l := append2 [sigma1, sigma2] (sigma_l m),
            j_l := append2 [j1, j2] (j_l m),
            n_l := append2 [n1, n2] (n_l m),
            key_l := append2 [n1, n2] (key_l m)\<rparr>
        else m)"

text \<open>
  One round of the outer loop; \<open>continue\<close> when \<open>max_order < 2\<close> skips the inner loop.
\<close>

definition order1_step ::
  "int \<Rightarrow> calibration \<Rightarrow> meta_lists \<Rightarrow> nat \<times> real \<times> real \<times> int \<Rightarrow> meta_lists" where
  "order1_step max_order cal m r1 =
     (case r1 of (n1, xi1, sigma1, j1) \<Rightarrow>
        let m' = m\<lparr>order_l := append1 1 (order_l m),
                  xi_l := append1 [xi1] (xi_l m),
                  sigma_l := append1 [sigma1] (sigma_l m),
                  j_l := append1 [j1] (j_l m),
                  n_l := append1 [n1] (n_l m),
                  key_l := append1 [n1] (key_l m)\<rparr>
        in if max_order < 2 then m'
           else foldl (order2_step r1) m' (rows2 cal))"

definition meta_loops :: "int \<Rightarrow> calibration \<Rightarrow> meta_lists" where
  "meta_loops max_order cal =
     foldl (order1_step max_order cal) meta_init (rows1 cal)"

text \<open>
  Padding with \<open>math.nan\<close>: \<open>x + (math.nan,) * (pad_len - len(x))\<close>; a tuple times a
  negative integer is the empty tuple.
\<close>

datatype 'a cell = Val 'a | NaN

definition pad_row :: "int \<Rightarrow> 'a list \<Rightarrow> 'a cell list" where
  "pad_row pad_len x = map Val x @ replicate (nat (pad_len - int (length x))) NaN"

text \<open>
  The dictionary after the fields are joined and padded; the field \<open>key\<close> stays a list
  of tuples.
\<close>

record meta =
  meta_order :: "nat list"
  meta_xi :: "real cell list list"
  meta_sigma :: "real cell list list"
  meta_j :: "int cell list list"
  meta_n :: "nat cell list list"
  meta_key :: "nat list list"

definition meta_padded :: "int \<Rightarrow> meta_lists \<Rightarrow> meta" where
  "meta_padded max_order m =
     \<lparr>meta_order = flatten3 (order_l m),
      meta_xi = map (pad_row max_order) (flatten3 (xi_l m)),
      meta_sigma = map (pad_row max_order) (flatten3 (sigma_l m)),
      meta_j = map (pad_row max_order) (flatten3 (j_l m)),
      meta_n = map (pad_row max_order) (flatten3 (n_l m)),
      meta_key = flatten3 (key_l m)\<rparr>"

text \<open>
  \<open>torch.from_numpy(np.array(meta[field]))\<close> on the five array fields, in the order
  \<open>order\<close>, \<open>xi\<close>, \<open>sigma\<close>, \<open>j\<close>, \<open>n\<close>. \<open>np.array\<close> makes a matrix of a
  list of tuples of one length and refuses tuples of different lengths with a
  \<open>ValueError\<close> (its message goes on with the shape it detected); the list \<open>order\<close>
  holds integers. The conversion keeps the entries and their order. The four padded
  fields have rows of the same lengths, so that all four are refused or none is.
\<close>

definition rectangular :: "'a list list \<Rightarrow> bool" where
  "rectangular rows \<longleftrightarrow> list_all (\<lambda>r. length r = length (hd rows)) rows"

definition meta_finish :: "int \<Rightarrow> meta_lists \<Rightarrow> error + meta" where
  "meta_finish max_order m =
     (let p = meta_padded max_order m in
      if rectangular (meta_xi p) \<and> rectangular (meta_sigma p) \<and>
         rectangular (meta_j p) \<and> rectangular (meta_n p)
      then Inr p
      else Inl (ValueError ''setting an array element with a sequence.''))"

definition compute_meta_scattering :: "calibrator \<Rightarrow> int \<Rightarrow> int \<Rightarrow> int \<Rightarrow> error + meta" where
  "compute_meta_scattering calibrate J Q max_order =
     (case calibrate J Q of
        Inl e \<Rightarrow> Inl e
      | Inr cal \<Rightarrow> meta_finish max_order (meta_loops max_order cal))"

subsection \<open>precompute_size_scattering\<close>

text \<open>
  The two \<open>range\<close> loops index \<open>j2\<close> and \<open>j1\<close>; an index past the end of a list raises.
  The comparison reads \<open>j2[n2]\<close> first.
\<close>

definition size2_inner :: "int list \<Rightarrow> int list \<Rightarrow> nat \<Rightarrow> error + nat \<Rightarrow> nat \<Rightarrow> error + nat" where
  "size2_inner j1 j2 n1 acc n2 =
     (case acc of
        Inl e \<Rightarrow> Inl e
      | Inr s \<Rightarrow>
          (case py_index j2 n2 of
             Inl e \<Rightarrow> Inl e
           | Inr a \<Rightarrow>
               (case py_index j1 n1 of
                  Inl e \<Rightarrow> Inl e
                | Inr b \<Rightarrow> Inr (if a > b then s + 1 else s))))"

definition size2_outer :: "calibration \<Rightarrow> error + nat \<Rightarrow> nat \<Rightarrow> error + nat" where
  "size2_outer cal acc n1 =
     foldl (size2_inner (j1s cal) (j2s cal) n1) acc [0..<length (xi2s cal)]"

definition size_order2 :: "calibration \<Rightarrow> error + nat" where
  "size_order2 cal = foldl (size2_outer cal) (Inr 0) [0..<length (xi1s cal)]"

text \<open>The result is a tuple of counts when \<open>detail\<close> is true, one integer otherwise.\<close>

datatype size_result = Sizes "nat list" | Total nat

definition precompute_size_scattering ::
  "calibrator \<Rightarrow> int \<Rightarrow> int \<Rightarrow> int \<Rightarrow> bool \<Rightarrow> error + size_result" where
  "precompute_size_scattering calibrate J Q max_order detail =
     (case calibrate J Q of
        Inl e \<Rightarrow> Inl e
      | Inr cal \<Rightarrow>
          (let size_order0 = 1; size_order1 = length (xi1s cal) in
           case size_order2 cal of
             Inl e \<Rightarrow> Inl e
           | Inr s2 \<Rightarrow>
               if detail then
                 if max_order = 2 then Inr (Sizes [size_order0, size_order1, s2])
                 else Inr (Sizes [size_order0, size_order1])
               else
                 if max_order = 2 then Inr (Total (size_order0 + size_order1 + s2))
                 else Inr (Total (size_order0 + size_order1))))"


section \<open>Arrays and tensors\<close>

text \<open>
  A numpy array or a torch tensor: its shape and its entries in row-major (C) order, the
  layout both libraries use for a freshly made array. \<open>reshape\<close> keeps the entries and
  replaces the shape.
\<close>

record 'a array =
  shape :: "nat list"
  data :: "'a list"

text \<open>
  The shape a \<open>reshape\<close> call asks for may hold one \<open>-1\<close>, a dimension to be inferred
  from the number of entries. \<open>torch.Tensor.reshape\<close> refuses a second \<open>-1\<close>, a
  dimension below \<open>-1\<close>, a shape whose size does not fit, and a \<open>-1\<close> beside a
  dimension 0 (the inferred dimension "can be any value and is ambiguous").
\<close>

definition infer_size :: "int list \<Rightarrow> nat \<Rightarrow> error + nat list" where
  "infer_size target numel =
     (if list_ex (\<lambda>d. d < - 1) target then Inl (RuntimeError ''invalid shape dimension'')
      else if 1 < length (filter (\<lambda>d. d = - 1) target)
        then Inl (RuntimeError ''only one dimension can be inferred'')
      else
        let newsize = prod_list (map nat (filter (\<lambda>d. d \<noteq> - 1) target)) in
        if list_ex (\<lambda>d. d = - 1) target then
          if 0 < newsize \<and> numel mod newsize = 0
            then Inr (map (\<lambda>d. if d = - 1 then numel div newsize else nat d) target)
          else if numel = newsize
            then Inl (RuntimeError
              ''cannot reshape tensor of 0 elements: the unspecified dimension size -1 can be any value and is ambiguous'')
          else Inl (RuntimeError ''shape is invalid for input size'')
        else if numel = newsize then Inr (map nat target)
        else Inl (RuntimeError ''shape is invalid for input size''))"

definition reshape :: "'a array \<Rightarrow> int list \<Rightarrow> error + 'a array" where
  "reshape x target =
     (case infer_size target (prod_list (shape x)) of
        Inl e \<Rightarrow> Inl e
      | Inr s \<Rightarrow> Inr (x\<lparr>shape := s\<rparr>))"

text \<open>\<open>shape[-2:]\<close>: the last two dimensions (all of them when there are fewer).\<close>

definition last_two :: "'a list \<Rightarrow> 'a list" where
  "last_two xs = drop (length xs - 2) xs"

section \<open>scattering1d/frontend/torch_frontend.py: the names the module binds\<close>

text \<open>
  A bare name in a function body is looked up among the function's local names, then the
  names bound at module scope, then the builtins. The body of the enclosing class is not
  searched: a function defined in the class body is reachable as an attribute only.
  The module binds the names below (its imports, \<open>__all__\<close>, the class and the two
  functions after it).
\<close>

definition module_globals :: "string list" where
  "module_globals =
     [''math'', ''numbers'', ''torch'', ''np'', ''ScatteringTorch'', ''scattering1d'',
      ''calibrate_scattering_filters'', ''scattering_filter_factory'',
      ''compute_border_indices'', ''compute_padding'', ''__all__'',
      ''Scattering1DTorch'', ''_apply_psi'', ''_apply_phi'']"

text \<open>The functions defined in the body of \<open>Scattering1DTorch\<close>.\<close>

definition class_attributes :: "string list" where
  "class_attributes =
     [''__init__'', ''build'', ''create_and_register_filters'', ''meta'', ''output_size'',
      ''forward'', ''compute_meta_scattering'', ''precompute_size_scattering'',
      ''compute_minimum_support_to_pad'']"

text \<open>The builtin functions, constants and exceptions of Python 3 the lookup ends with.\<close>

definition python_builtins :: "string list" where
  "python_builtins =
     [''abs'', ''all'', ''any'', ''ascii'', ''bin'', ''bool'', ''breakpoint'', ''bytearray'',
      ''bytes'', ''callable'', ''chr'', ''classmethod'', ''compile'', ''complex'', ''delattr'',
      ''dict'', ''dir'', ''divmod'', ''enumerate'', ''eval'', ''exec'', ''filter'', ''float'',
      ''format'', ''frozenset'', ''getattr'', ''globals'', ''hasattr'', ''hash'', ''help'',
      ''hex'', ''id'', ''input'', ''int'', ''isinstance'', ''issubclass'', ''iter'', ''len'',
      ''list'', ''locals'', ''map'', ''max'', ''memoryview'', ''min'', ''next'', ''object'',
      ''oct'', ''open'', ''ord'', ''pow'', ''print'', ''property'', ''range'', ''repr'',
      ''reversed'', ''round'', ''set'', ''setattr'', ''slice'', ''sorted'', ''staticmethod'',
      ''str'', ''sum'', ''super'', ''tuple'', ''type'', ''vars'', ''zip'', ''__import__'',
      ''None'', ''True'', ''False'', ''NotImplemented'', ''Ellipsis'',
      ''Exception'', ''ValueError'', ''RuntimeError'', ''NameError'', ''AttributeError'',
      ''IndexError'', ''KeyError'', ''TypeError'', ''ZeroDivisionError'', ''OverflowError'',
      ''ImportError'']"

definition resolve_name :: "string list \<Rightarrow> string \<Rightarrow> error + unit" where
  "resolve_name locals name =
     (if name \<in> set locals \<or> name \<in> set module_globals \<or> name \<in> set python_builtins
      then Inr () else Inl (NameError name))"

text \<open>
  The attributes an instance ever gets: every \<open>self.<name> = ...\<close> of the class body.
  Reading another attribute of \<open>self\<close> that the class does not define either raises
  \<open>AttributeError\<close>. The base class is not among the sources; it is a torch module,
  which adds its own methods and the registered buffers \<open>tensor0\<close>, \<open>tensor1\<close>, ...
  and no attribute of a name that is looked up here.
\<close>

definition instance_attributes :: "string list" where
  "instance_attributes =
     [''J'', ''shape'', ''Q'', ''max_order'', ''average'', ''oversampling'', ''vectorize'',
      ''backend'', ''r_psi'', ''sigma0'', ''alpha'', ''P_max'', ''eps'',
      ''criterion_amplitude'', ''normalize'', ''T'', ''J_pad'', ''pad_left'', ''pad_right'',
      ''ind_start'', ''ind_end'', ''psi1_f'', ''psi2_f'', ''phi_f'']"

definition lookup_attribute :: "string \<Rightarrow> error + unit" where
  "lookup_attribute name =
     (if name \<in> set instance_attributes \<or> name \<in> set class_attributes
      then Inr () else Inl (AttributeError name))"


section \<open>scattering1d/frontend/torch_frontend.py: the transform object\<close>

text \<open>A statement that raises ends the function; one that returns feeds the next.\<close>

definition on_success :: "error + 'a \<Rightarrow> ('a \<Rightarrow> error + 'b) \<Rightarrow> error + 'b" where
  "on_success r f = (case r of Inl e \<Rightarrow> Inl e | Inr v \<Rightarrow> f v)"

text \<open>
  A filter is a dictionary with integer keys (the resolutions, holding arrays) and string
  keys (its metadata). The entries are kept in insertion order, the order \<open>keys()\<close>
  walks them in. A real filter array becomes a tensor of pairs: \<open>view(-1, 1).repeat(1, 2)\<close>
  writes every entry twice.
\<close>

datatype fkey = IntKey int | StrKey string

datatype fval = Numpy "real list" | Torch "(real \<times> real) list" | Scalar real

type_synonym filter_dict = "(fkey \<times> fval) list"

definition from_numpy_repeat :: "fval \<Rightarrow> error + fval" where
  "from_numpy_repeat v =
     (case v of
        Numpy xs \<Rightarrow> Inr (Torch (map (\<lambda>a. (a, a)) xs))
      | _ \<Rightarrow> Inl (TypeError ''expected np.ndarray''))"

text \<open>
  A value of numpy's type \<open>float64\<close>: a real number, an infinity or \<open>nan\<close>.
\<close>

datatype float64 = Finite real | PlusInfinity | MinusInfinity | NotANumber

text \<open>
  The functions of the package that the module imports and that are not among the sources:
  they are parameters. \<open>ext_torch_backend\<close> is the name of the module
  \<open>..backend.torch_backend\<close> that \<open>build\<close> imports when no backend is given.
  \<open>ext_log2\<close> is \<open>np.log2\<close> on a Python integer: numpy computes it in \<open>float64\<close>,
  so that its result is a rounded logarithm, \<open>-inf\<close> on 0 and \<open>nan\<close> on a negative
  integer, and it refuses an integer that fits no 64-bit type with a \<open>TypeError\<close>.
\<close>

record factory_opts =
  normalize :: string
  criterion_amplitude :: real
  r_psi :: real
  sigma0 :: real
  alpha :: real
  P_max :: int
  eps :: real
  to_torch :: "bool option"
  max_subsampling :: "int option"

record cascade_args =
  c_x :: "real array"
  c_backend :: "string option"
  c_J :: int
  c_psi1_f :: "filter_dict list"
  c_psi2_f :: "filter_dict list"
  c_phi_f :: filter_dict
  c_max_order :: int
  c_average :: bool
  c_pad_left :: int
  c_pad_right :: int
  c_ind_start :: "(int \<times> int) list"
  c_ind_end :: "(int \<times> int) list"
  c_oversampling :: int
  c_vectorize :: bool
  c_size_scattering :: size_result

datatype cascade_out = OutTensor "real array" | OutDict "(nat list \<times> real array) list"

record env =
  ext_calibrate :: calibrator
  ext_filter_factory ::
    "int \<Rightarrow> int \<Rightarrow> int \<Rightarrow> factory_opts \<Rightarrow>
       error + (filter_dict \<times> filter_dict list \<times> filter_dict list \<times> int)"
  ext_compute_padding :: "int \<Rightarrow> int \<Rightarrow> error + (int \<times> int)"
  ext_compute_border_indices ::
    "int \<Rightarrow> int \<Rightarrow> int \<Rightarrow> error + ((int \<times> int) list \<times> (int \<times> int) list)"
  ext_scattering1d :: "cascade_args \<Rightarrow> error + cascade_out"
  ext_torch_backend :: string
  ext_log2 :: "int \<Rightarrow> error + float64"

text \<open>
  \<open>__init__\<close> stores its eight arguments in \<open>self\<close> and calls \<open>build\<close>. The argument
  \<open>shape\<close> is an integer, a tuple of integers or something else; \<open>backend\<close> is
  \<open>None\<close> or an object, of which only the \<open>name\<close> is read.
\<close>

datatype shape_arg = ShapeInt int | ShapeTuple "int list" | ShapeOther

record init_attrs =
  self_J :: int
  self_shape :: shape_arg
  self_Q :: int
  self_max_order :: int
  self_average :: bool
  self_oversampling :: int
  self_vectorize :: bool
  self_backend :: "string option"

text \<open>The attributes \<open>build\<close> adds before it creates the filters.\<close>

record built_attrs = init_attrs +
  self_r_psi :: real
  self_sigma0 :: real
  self_alpha :: real
  self_P_max :: int
  self_eps :: real
  self_criterion_amplitude :: real
  self_normalize :: string
  self_T :: int
  self_J_pad :: int
  self_pad_left :: int
  self_pad_right :: int
  self_ind_start :: "(int \<times> int) list"
  self_ind_end :: "(int \<times> int) list"

text \<open>
  The finished object: the filters, and the buffers of the module. The buffer registered
  under the name \<open>'tensor' + str(n)\<close> is kept under the number \<open>n\<close>.
\<close>

record scattering1d_torch = built_attrs +
  self_psi1_f :: "filter_dict list"
  self_psi2_f :: "filter_dict list"
  self_phi_f :: filter_dict
  buffers :: "nat \<rightharpoonup> fval"

subsection \<open>compute_minimum_support_to_pad\<close>

text \<open>
  \<open>int(np.ceil(np.log2(n)))\<close> and \<open>int(np.floor(np.log2(n)))\<close> on a Python integer.
  \<open>np.ceil\<close> and \<open>np.floor\<close> are exact on a \<open>float64\<close> and keep an infinity and
  \<open>nan\<close>; \<open>int\<close> refuses both.
\<close>

definition int_of_float64 :: "float64 \<Rightarrow> (real \<Rightarrow> int) \<Rightarrow> error + int" where
  "int_of_float64 v rounding =
     (case v of
        Finite r \<Rightarrow> Inr (rounding r)
      | NotANumber \<Rightarrow> Inl (ValueError ''cannot convert float NaN to integer'')
      | _ \<Rightarrow> Inl (OverflowError ''cannot convert float infinity to integer''))"

definition ceil_log2 :: "env \<Rightarrow> int \<Rightarrow> error + int" where
  "ceil_log2 ev k = on_success (ext_log2 ev k) (\<lambda>v. int_of_float64 v ceiling)"

definition floor_log2 :: "env \<Rightarrow> int \<Rightarrow> error + int" where
  "floor_log2 ev k = on_success (ext_log2 ev k) (\<lambda>v. int_of_float64 v floor)"

text \<open>The function as the class body defines it; its keyword arguments travel as one record.\<close>

definition compute_minimum_support_to_pad ::
  "env \<Rightarrow> int \<Rightarrow> int \<Rightarrow> int \<Rightarrow> factory_opts \<Rightarrow> error + int" where
  "compute_minimum_support_to_pad ev T0 J0 Q0 opts =
     on_success (ceil_log2 ev T0) (\<lambda>J_tentative.
     on_success
       (ext_filter_factory ev J_tentative J0 Q0
          (opts\<lparr>to_torch := Some False, max_subsampling := Some 0\<rparr>))
       (\<lambda>(phi, psi1, psi2, t_max_phi).
          let min_to_pad = 3 * t_max_phi in Inr min_to_pad))"

subsection \<open>create_and_register_filters\<close>

text \<open>
  One filter dictionary: every entry under a key that is not a string is converted and
  registered as the next buffer. \<open>register_buffer\<close> accepts a name that is a buffer
  already and replaces its tensor.
\<close>

fun register_dict ::
  "filter_dict \<Rightarrow> (nat \<rightharpoonup> fval) \<times> nat \<Rightarrow> error + (filter_dict \<times> (nat \<rightharpoonup> fval) \<times> nat)" where
  "register_dict [] (bufs, i) = Inr ([], bufs, i)"
| "register_dict ((StrKey k, v) # rest) (bufs, i) =
     on_success (register_dict rest (bufs, i)) (\<lambda>(d, st). Inr ((StrKey k, v) # d, st))"
| "register_dict ((IntKey k, v) # rest) (bufs, i) =
     on_success (from_numpy_repeat v) (\<lambda>t.
     on_success (register_dict rest (bufs(i \<mapsto> t), i + 1)) (\<lambda>(d, st).
       Inr ((IntKey k, t) # d, st)))"

fun register_dicts ::
  "filter_dict list \<Rightarrow> (nat \<rightharpoonup> fval) \<times> nat \<Rightarrow>
     error + (filter_dict list \<times> (nat \<rightharpoonup> fval) \<times> nat)" where
  "register_dicts [] st = Inr ([], st)"
| "register_dicts (d # ds) st =
     on_success (register_dict d st) (\<lambda>(d', st').
     on_success (register_dicts ds st') (\<lambda>(ds', st''). Inr (d' # ds', st'')))"

definition create_and_register_filters :: "env \<Rightarrow> built_attrs \<Rightarrow> error + scattering1d_torch" where
  "create_and_register_filters ev b =
     on_success
       (ext_filter_factory ev (self_J_pad b) (self_J b) (self_Q b)
          \<lparr>normalize = self_normalize b, criterion_amplitude = self_criterion_amplitude b,
           r_psi = self_r_psi b, sigma0 = self_sigma0 b, alpha = self_alpha b,
           P_max = self_P_max b, eps = self_eps b, to_torch = None, max_subsampling = None\<rparr>)
       (\<lambda>(phi_f, psi1_f, psi2_f, t_max).
     on_success (register_dict phi_f (Map.empty, 0)) (\<lambda>(phi_f', st0).
     on_success (register_dicts psi1_f st0) (\<lambda>(psi1_f', st1).
     on_success (register_dicts psi2_f st1) (\<lambda>(psi2_f', (bufs, i)).
       Inr (built_attrs.extend b
              (scattering1d_torch.fields psi1_f' psi2_f' phi_f' bufs))))))"


subsection \<open>build and __init__\<close>

text \<open>The names \<open>build\<close> assigns, which are its local names.\<close>

definition build_locals :: "string list" where
  "build_locals = [''self'', ''backend'', ''min_to_pad'', ''J_max_support'']"

text \<open>
  \<open>build\<close> in the order of its statements: the backend, the seven constants, the shape,
  the minimum support to pad (a call through the bare name
  \<open>compute_minimum_support_to_pad\<close>), \<open>J_pad\<close>, the padding, the border indices and
  the filters. In a tuple \<open>shape[0]\<close> is read before the length is checked.
\<close>

definition build :: "env \<Rightarrow> init_attrs \<Rightarrow> error + scattering1d_torch" where
  "build ev s =
     on_success
       (case self_backend s of
          None \<Rightarrow> Inr (ext_torch_backend ev)
        | Some name \<Rightarrow>
            if take 5 name \<noteq> ''torch'' then Inl (RuntimeError ''This backend is not supported.'')
            else Inr name)
       (\<lambda>backend.
     let opts = \<lparr>normalize = ''l1'', criterion_amplitude = 1 / 1000, r_psi = sqrt (1 / 2),
                 sigma0 = 1 / 10, alpha = 5, P_max = 5, eps = 1 / 10000000,
                 to_torch = None, max_subsampling = None\<rparr> in
     on_success
       (case self_shape s of
          ShapeInt t \<Rightarrow> Inr t
        | ShapeTuple ts \<Rightarrow>
            (case ts of
               [] \<Rightarrow> Inl (IndexError ''tuple index out of range'')
             | t # rest \<Rightarrow>
                 if 1 < length ts
                 then Inl (ValueError
                   ''If shape is specified as a tuple, it must have exactly one element'')
                 else Inr t)
        | ShapeOther \<Rightarrow> Inl (ValueError ''shape must be an integer or a 1-tuple''))
       (\<lambda>T0.
     on_success (resolve_name build_locals ''compute_minimum_support_to_pad'') (\<lambda>u.
     on_success (compute_minimum_support_to_pad ev T0 (self_J s) (self_Q s) opts)
       (\<lambda>min_to_pad.
     on_success (floor_log2 ev (3 * T0 - 2)) (\<lambda>J_max_support.
     on_success (ceil_log2 ev (T0 + 2 * min_to_pad)) (\<lambda>c.
     let J_pad = min c J_max_support in
     on_success (ext_compute_padding ev J_pad T0) (\<lambda>(pad_left, pad_right).
     on_success (ext_compute_border_indices ev (self_J s) pad_left (pad_left + T0))
       (\<lambda>(ind_start, ind_end).
     create_and_register_filters ev
       (init_attrs.extend (s\<lparr>self_backend := Some backend\<rparr>)
          (built_attrs.fields (r_psi opts) (sigma0 opts) (alpha opts) (P_max opts) (eps opts)
             (criterion_amplitude opts) (normalize opts) T0 J_pad pad_left pad_right
             ind_start ind_end))))))))))"

text \<open>
  \<open>Scattering1DTorch.__init__\<close>: the constructor of the base class (not among the
  sources) returns, the arguments are stored, and \<open>build\<close> runs.
\<close>

definition Scattering1DTorch_init :: "env \<Rightarrow> init_attrs \<Rightarrow> error + scattering1d_torch" where
  "Scattering1DTorch_init ev args = build ev args"

text \<open>The arguments a caller is documented to pass: a supported backend and a proper shape.\<close>

definition valid_args :: "init_attrs \<Rightarrow> bool" where
  "valid_args s \<longleftrightarrow>
     (case self_backend s of None \<Rightarrow> True | Some name \<Rightarrow> take 5 name = ''torch'') \<and>
     (case self_shape s of ShapeInt t \<Rightarrow> True | ShapeTuple ts \<Rightarrow> length ts = 1
        | ShapeOther \<Rightarrow> False)"

subsection \<open>forward\<close>

definition forward_locals :: "string list" where
  "forward_locals =
     [''self'', ''x'', ''batch_shape'', ''signal_shape'', ''size_scattering'', ''n'',
      ''buffer_dict'', ''k'', ''psi_f'', ''sub_k'', ''S'', ''scattering_shape'', ''v'']"

text \<open>
  The loop over \<open>self.phi_f\<close>, and the loop over one dictionary of \<open>self.psi2_f\<close>:
  every entry under a key that is not a string is replaced by the next buffer. A buffer
  that is missing from \<open>buffer_dict\<close> raises \<open>KeyError\<close>.
\<close>

fun restore_dict ::
  "(nat \<rightharpoonup> fval) \<Rightarrow> filter_dict \<Rightarrow> nat \<Rightarrow> error + (filter_dict \<times> nat)" where
  "restore_dict bd [] i = Inr ([], i)"
| "restore_dict bd ((StrKey k, v) # rest) i =
     on_success (restore_dict bd rest i) (\<lambda>(d, i'). Inr ((StrKey k, v) # d, i'))"
| "restore_dict bd ((IntKey k, v) # rest) i =
     (case bd i of
        None \<Rightarrow> Inl (KeyError ''tensor'')
      | Some t \<Rightarrow>
          on_success (restore_dict bd rest (i + 1)) (\<lambda>(d, i'). Inr ((IntKey k, t) # d, i')))"

fun restore_dicts ::
  "(nat \<rightharpoonup> fval) \<Rightarrow> filter_dict list \<Rightarrow> nat \<Rightarrow> error + (filter_dict list \<times> nat)" where
  "restore_dicts bd [] i = Inr ([], i)"
| "restore_dicts bd (d # ds) i =
     on_success (restore_dict bd d i) (\<lambda>(d', i').
     on_success (restore_dicts bd ds i') (\<lambda>(ds', i''). Inr (d' # ds', i'')))"

text \<open>
  The loop over one dictionary of \<open>self.psi1_f\<close>. Its assignment is
  \<open>self.psi_f[sub_k] = buffer_dict['tensor' + str(n)]\<close>: the right-hand side is read
  first, then the attribute \<open>psi_f\<close> of \<open>self\<close>. Were there such an attribute, the
  buffer would be stored in it and the dictionaries of \<open>self.psi1_f\<close> would stay as they
  are.
\<close>

fun restore_psi1_dict :: "(nat \<rightharpoonup> fval) \<Rightarrow> filter_dict \<Rightarrow> nat \<Rightarrow> error + nat" where
  "restore_psi1_dict bd [] i = Inr i"
| "restore_psi1_dict bd ((StrKey k, v) # rest) i = restore_psi1_dict bd rest i"
| "restore_psi1_dict bd ((IntKey k, v) # rest) i =
     (case bd i of
        None \<Rightarrow> Inl (KeyError ''tensor'')
      | Some t \<Rightarrow>
          on_success (lookup_attribute ''psi_f'') (\<lambda>u. restore_psi1_dict bd rest (i + 1)))"

fun restore_psi1 :: "(nat \<rightharpoonup> fval) \<Rightarrow> filter_dict list \<Rightarrow> nat \<Rightarrow> error + nat" where
  "restore_psi1 bd [] i = Inr i"
| "restore_psi1 bd (d # ds) i =
     on_success (restore_psi1_dict bd d i) (\<lambda>i'. restore_psi1 bd ds i')"

text \<open>The reshaping of the result to the batch shape of the input.\<close>

fun reshape_items ::
  "nat list \<Rightarrow> (nat list \<times> real array) list \<Rightarrow> error + (nat list \<times> real array) list" where
  "reshape_items batch_shape [] = Inr []"
| "reshape_items batch_shape ((k, v) # rest) =
     on_success (reshape v (map int (batch_shape @ last_two (shape v)))) (\<lambda>v'.
     on_success (reshape_items batch_shape rest) (\<lambda>rest'. Inr ((k, v') # rest')))"

definition reshape_output :: "bool \<Rightarrow> nat list \<Rightarrow> cascade_out \<Rightarrow> error + cascade_out" where
  "reshape_output vec batch_shape S =
     (if vec then
        (case S of
           OutTensor t \<Rightarrow>
             on_success (reshape t (map int (batch_shape @ last_two (shape t))))
               (\<lambda>t'. Inr (OutTensor t'))
         | OutDict items \<Rightarrow> Inl (AttributeError ''shape''))
      else
        (case S of
           OutTensor t \<Rightarrow> Inl (AttributeError ''items'')
         | OutDict items \<Rightarrow>
             on_success (reshape_items batch_shape items) (\<lambda>items'. Inr (OutDict items'))))"

text \<open>
  \<open>forward\<close> in the order of its statements. The call of the cascade reads the bare names
  \<open>scattering1d\<close>, \<open>pad\<close> and \<open>unpad\<close> before it is made.
\<close>

definition forward :: "env \<Rightarrow> scattering1d_torch \<Rightarrow> real array \<Rightarrow> error + cascade_out" where
  "forward ev self x =
     (if length (shape x) < 1
      then Inl (ValueError ''Input tensor x should have at least one axis, got 0'')
      else
        let batch_shape = butlast (shape x); signal_shape = [last (shape x)] in
        on_success (reshape x ([- 1, 1] @ map int signal_shape)) (\<lambda>x'.
        on_success
          (if self_vectorize self then
             if \<not> self_average self
             then Inl (ValueError
               ''Options average=False and vectorize=True are mutually incompatible. Please set vectorize to False.'')
             else precompute_size_scattering (ext_calibrate ev) (self_J self) (self_Q self)
                    (self_max_order self) True
           else Inr (Total 0))
          (\<lambda>size_scattering.
        let buffer_dict = buffers self in
        on_success (restore_dict buffer_dict (self_phi_f self) 0) (\<lambda>(phi_f', n0).
        on_success (restore_psi1 buffer_dict (self_psi1_f self) n0) (\<lambda>n1.
        on_success (restore_dicts buffer_dict (self_psi2_f self) n1) (\<lambda>(psi2_f', n2).
        on_success (resolve_name forward_locals ''scattering1d'') (\<lambda>u0.
        on_success (resolve_name forward_locals ''pad'') (\<lambda>u1.
        on_success (resolve_name forward_locals ''unpad'') (\<lambda>u2.
        on_success
          (ext_scattering1d ev
             \<lparr>c_x = x', c_backend = self_backend self,
              c_J = self_J self, c_psi1_f = self_psi1_f self, c_psi2_f = psi2_f',
              c_phi_f = phi_f', c_max_order = self_max_order self,
              c_average = self_average self, c_pad_left = self_pad_left self,
              c_pad_right = self_pad_right self, c_ind_start = self_ind_start self,
              c_ind_end = self_ind_end self, c_oversampling = self_oversampling self,
              c_vectorize = self_vectorize self, c_size_scattering = size_scattering\<rparr>)
          (\<lambda>S. reshape_output (self_vectorize self) batch_shape S))))))))))"

section \<open>scattering1d/frontend/__init__.py: the public constructor\<close>

text \<open>
  \<open>Scattering1D.__init__\<close> picks the frontend named by the keyword \<open>frontend\<close>
  (\<open>'numpy'\<close> when absent), imports its class and runs that class's \<open>__init__\<close> on the
  remaining arguments, all inside one \<open>try\<close> whose bare \<open>except\<close> raises a
  \<open>RuntimeError\<close> of its own. The numpy and the tensorflow frontends are not among the
  sources: importing and running each is one parameter.
\<close>

datatype ('n, 't) scattering_object =
    NumpyObject 'n
  | TorchObject scattering1d_torch
  | TensorflowObject 't

definition Scattering1D_init ::
  "env \<Rightarrow> (init_attrs \<Rightarrow> error + 'n) \<Rightarrow> (init_attrs \<Rightarrow> error + 't) \<Rightarrow>
     string option \<Rightarrow> init_attrs \<Rightarrow> error + ('n, 't) scattering_object" where
  "Scattering1D_init ev numpy_init tensorflow_init frontend_kw args =
     (let frontend = (case frontend_kw of None \<Rightarrow> ''numpy'' | Some f \<Rightarrow> f) in
      if frontend = ''numpy'' then
        (case numpy_init args of
           Inl e \<Rightarrow> Inl (RuntimeError ''Make sure NumPy is correctly installed.'')
         | Inr obj \<Rightarrow> Inr (NumpyObject obj))
      else if frontend = ''torch'' then
        (case Scattering1DTorch_init ev args of
           Inl e \<Rightarrow> Inl (RuntimeError ''Make sure PyTorch is correctly installed.'')
         | Inr obj \<Rightarrow> Inr (TorchObject obj))
      else if frontend = ''tensorflow'' then
        (case tensorflow_init args of
           Inl e \<Rightarrow> Inl (RuntimeError ''Make sure TensorFlow is correctly installed.'')
         | Inr obj \<Rightarrow> Inr (TensorflowObject obj))
      else Inl (RuntimeError ''This frontend is not available.''))"


section \<open>scattering2d/backend/numpy_backend.py\<close>

subsection \<open>Indexing\<close>

text \<open>
  The position of the entry \<open>x[i0, i1, ...]\<close> in the row-major data of an array, and the
  multi-index of a position.
\<close>

definition ravel :: "nat list \<Rightarrow> nat list \<Rightarrow> nat" where
  "ravel dims idx = foldl (\<lambda>acc (d, i). acc * d + i) 0 (zip dims idx)"

fun unravel :: "nat list \<Rightarrow> nat \<Rightarrow> nat list" where
  "unravel [] f = []"
| "unravel (d # ds) f = (f div prod_list ds) mod d # unravel ds f"

definition entry :: "'a array \<Rightarrow> nat list \<Rightarrow> 'a" where
  "entry x idx = data x ! ravel (shape x) idx"

text \<open>An array holds as many entries as its shape says.\<close>

definition well_formed :: "'a array \<Rightarrow> bool" where
  "well_formed x \<longleftrightarrow> length (data x) = prod_list (shape x)"

text \<open>\<open>a // b\<close> on Python integers.\<close>

definition floordiv :: "int \<Rightarrow> int \<Rightarrow> error + int" where
  "floordiv a b = (if b = 0 then Inl ZeroDivisionError else Inr (a div b))"

subsection \<open>SubsampleFourier\<close>

text \<open>
  \<open>numpy.ndarray.reshape\<close> to a shape without \<open>-1\<close>: the sizes must agree.
\<close>

definition np_reshape :: "'a array \<Rightarrow> nat list \<Rightarrow> error + 'a array" where
  "np_reshape x target =
     (if prod_list target = prod_list (shape x) then Inr (x\<lparr>shape := target\<rparr>)
      else Inl (ValueError ''cannot reshape array''))"

text \<open>
  \<open>y.mean(axis=(2, 4))\<close> on an array of six axes: the entry \<open>[b, c, i, j]\<close> of the
  result is the sum of the entries \<open>y[b, c, p, i, q, j]\<close> over \<open>p\<close> and \<open>q\<close>, divided by
  their number. Arithmetic is that of the field of the entries: the rounding of floating
  point is left out.
\<close>

definition mean_axes_2_4 :: "'a::field array \<Rightarrow> error + 'a array" where
  "mean_axes_2_4 y =
     (case shape y of
        [B, C, P, I, Q, J] \<Rightarrow>
          Inr \<lparr>shape = [B, C, I, J],
               data = map (\<lambda>f.
                   let u = unravel [B, C, I, J] f in
                   sum_list (map (\<lambda>p. sum_list (map (\<lambda>q.
                       data y ! ravel [B, C, P, I, Q, J] [u ! 0, u ! 1, p, u ! 2, q, u ! 3])
                     [0..<Q])) [0..<P]) / of_nat (P * Q))
                 [0..<B * C * I * J]\<rparr>
      | _ \<Rightarrow> Inl (IndexError ''axis is out of bounds for array''))"

text \<open>
  \<open>SubsampleFourier.__call__(x, k)\<close>. The array \<open>out\<close> made by \<open>np.zeros\<close> serves for
  its shape only; a negative dimension is refused by \<open>np.zeros\<close>.
\<close>

definition SubsampleFourier :: "'a::field array \<Rightarrow> int \<Rightarrow> error + 'a array" where
  "SubsampleFourier x k =
     on_success (py_index (shape x) 0) (\<lambda>s0.
     on_success (py_index (shape x) 1) (\<lambda>s1.
     on_success (py_index (shape x) 2) (\<lambda>s2.
     on_success (floordiv (int s2) k) (\<lambda>o2.
     on_success (py_index (shape x) 3) (\<lambda>s3.
     on_success (floordiv (int s3) k) (\<lambda>o3.
     if o2 < 0 \<or> o3 < 0 then Inl (ValueError ''negative dimensions are not allowed'')
     else
       on_success (floordiv (int s2) o2) (\<lambda>r2.
       on_success (floordiv (int s3) o3) (\<lambda>r3.
       on_success (np_reshape x [s0, s1, nat r2, nat o2, nat r3, nat o3]) (\<lambda>y.
         mean_axes_2_4 y)))))))))"

subsection \<open>fft\<close>

text \<open>
  \<open>numpy.fft.fft2\<close> and \<open>numpy.fft.ifft2\<close> with \<open>norm=None\<close>, as numpy documents them:
  the two-dimensional discrete Fourier transform over the last two axes, the forward
  transform unscaled and the inverse one scaled by \<open>1 / (M * N)\<close>. Both refuse an array
  of fewer than two axes and an empty transform axis.
\<close>

definition dft2_entry :: "real \<Rightarrow> complex array \<Rightarrow> nat \<Rightarrow> complex" where
  "dft2_entry sg x f =
     (let N = last (shape x); M = last (butlast (shape x));
          l = f div (M * N); u = (f div N) mod M; v = f mod N in
      sum_list (map (\<lambda>m. sum_list (map (\<lambda>n.
          data x ! (l * (M * N) + m * N + n) *
            cis (sg * (2 * pi) * (real u * real m / real M + real v * real n / real N)))
        [0..<N])) [0..<M]))"

definition fft_axes_check :: "complex array \<Rightarrow> error + nat \<times> nat" where
  "fft_axes_check x =
     (if length (shape x) < 2 then Inl (IndexError ''axes exceeds dimensionality of input'')
      else
        let N = last (shape x); M = last (butlast (shape x)) in
        if M = 0 \<or> N = 0 then Inl (ValueError ''Invalid number of FFT data points (0) specified.'')
        else Inr (M, N))"

definition np_fft2 :: "complex array \<Rightarrow> error + complex array" where
  "np_fft2 x =
     on_success (fft_axes_check x) (\<lambda>(M, N).
       Inr \<lparr>shape = shape x, data = map (dft2_entry (- 1) x) [0..<length (data x)]\<rparr>)"

definition np_ifft2 :: "complex array \<Rightarrow> error + complex array" where
  "np_ifft2 x =
     on_success (fft_axes_check x) (\<lambda>(M, N).
       Inr \<lparr>shape = shape x,
            data = map (\<lambda>f. dft2_entry 1 x f / of_nat (M * N)) [0..<length (data x)]\<rparr>)"

text \<open>\<open>x.shape[-1]\<close> and \<open>x.shape[-2]\<close>.\<close>

definition shape_from_end :: "'a array \<Rightarrow> nat \<Rightarrow> error + nat" where
  "shape_from_end x i =
     (if i < length (shape x) then Inr (rev (shape x) ! i)
      else Inl (IndexError ''tuple index out of range''))"

text \<open>An array times a Python integer, and \<open>np.real\<close>.\<close>

definition times_int :: "'a::semiring_1 array \<Rightarrow> nat \<Rightarrow> 'a array" where
  "times_int a c = a\<lparr>data := map (\<lambda>z. z * of_nat c) (data a)\<rparr>"

definition np_real :: "complex array \<Rightarrow> real array" where
  "np_real a = \<lparr>shape = shape a, data = map Re (data a)\<rparr>"

text \<open>
  The result of \<open>fft\<close> is a real array in the mode \<open>'C2R'\<close> and a complex one in the
  mode \<open>'C2C'\<close>. With any other \<open>direction\<close> no branch assigns \<open>output\<close>, and the
  \<open>return\<close> reads a local name that is not bound.
\<close>

datatype fft_output = RealArray "real array" | ComplexArray "complex array"

definition fft :: "complex array \<Rightarrow> string \<Rightarrow> bool \<Rightarrow> error + fft_output" where
  "fft x direction inverse_flag =
     (if direction = ''C2R'' \<and> \<not> inverse_flag
      then Inl (RuntimeError ''C2R mode can only be done with an inverse FFT.'')
      else if direction = ''C2R'' then
        on_success (np_ifft2 x) (\<lambda>y.
        on_success (shape_from_end x 0) (\<lambda>s1.
        on_success (shape_from_end x 1) (\<lambda>s2.
          Inr (RealArray (times_int (times_int (np_real y) s1) s2)))))
      else if direction = ''C2C'' then
        if inverse_flag then
          on_success (np_ifft2 x) (\<lambda>y.
          on_success (shape_from_end x 0) (\<lambda>s1.
          on_success (shape_from_end x 1) (\<lambda>s2.
            Inr (ComplexArray (times_int (times_int y s1) s2)))))
        else on_success (np_fft2 x) (\<lambda>y. Inr (ComplexArray y))
      else Inl (UnboundLocalError ''output''))"

text \<open>
  What \<open>np.fft.ifft2(x) * x.shape[-1] * x.shape[-2]\<close> amounts to: numpy's inverse
  transform with its scaling taken back.
\<close>

definition unnormalized_ifft2 :: "complex array \<Rightarrow> complex array" where
  "unnormalized_ifft2 x = \<lparr>shape = shape x, data = map (dft2_entry 1 x) [0..<length (data x)]\<rparr>"

subsection \<open>The transforms that fft is to return\<close>

text \<open>
  The two-dimensional discrete Fourier transform as mathematics has it, over the last two
  axes of an array and for the image at the leading indices \<open>b\<close>: the forward transform
  at the frequency \<open>(u, v)\<close> is the sum of \<open>x[b, m, n] * exp (- 2 pi i (u m / M + v n / N))\<close>
  over the image, and the unnormalized inverse transform is the same sum with the
  opposite sign in the exponent and without the factor \<open>1 / (M N)\<close>. These two are what
  the results of \<open>fft\<close> are compared with; nothing of the code is used in them but the
  reading of an entry.
\<close>

definition forward_transform :: "complex array \<Rightarrow> nat list \<Rightarrow> nat \<Rightarrow> nat \<Rightarrow> complex" where
  "forward_transform x b u v =
     (let M = last (butlast (shape x)); N = last (shape x) in
      \<Sum>m<M. \<Sum>n<N. entry x (b @ [m, n]) *
        exp (- (2 * of_real pi * \<i>) * (of_nat (u * m) / of_nat M + of_nat (v * n) / of_nat N)))"

definition unnormalized_inverse_transform ::
  "complex array \<Rightarrow> nat list \<Rightarrow> nat \<Rightarrow> nat \<Rightarrow> complex" where
  "unnormalized_inverse_transform x b u v =
     (let M = last (butlast (shape x)); N = last (shape x) in
      \<Sum>m<M. \<Sum>n<N. entry x (b @ [m, n]) *
        exp (2 * of_real pi * \<i> * (of_nat (u * m) / of_nat M + of_nat (v * n) / of_nat N)))"

section \<open>Closed forms of the loops\<close>

text \<open>
  The rows of the second order that the inner loop keeps for a first-order scale \<open>j1\<close>,
  and the rows that one round of the outer loop adds to the order-2 lists.
\<close>

definition sel2 ::
  "int \<Rightarrow> (nat \<times> real \<times> real \<times> int) list \<Rightarrow> (nat \<times> real \<times> real \<times> int) list" where
  "sel2 j1 rows = filter (\<lambda>r. j1 < snd (snd (snd r))) rows"

definition second_of ::
  "int \<Rightarrow> calibration \<Rightarrow> nat \<times> real \<times> real \<times> int \<Rightarrow> (nat \<times> real \<times> real \<times> int) list" where
  "second_of max_order cal r1 =
     (if max_order < 2 then [] else sel2 (snd (snd (snd r1))) (rows2 cal))"

text \<open>The indices \<open>n2\<close> of the second-order filters whose scale exceeds that of \<open>n1\<close>.\<close>

definition valid2 :: "calibration \<Rightarrow> nat \<Rightarrow> nat list" where
  "valid2 cal n1 = filter (\<lambda>n2. j1s cal ! n1 < j2s cal ! n2) [0..<length (xi2s cal)]"

section \<open>Concrete inputs\<close>

text \<open>
  A calibration of three first-order and three second-order filters, and a calibrator that
  returns it for \<open>Q \<ge> 1\<close>.
\<close>

definition sample_calibration :: calibration where
  "sample_calibration =
     \<lparr>sigma_low = 1 / 40,
      xi1s = [2 / 5, 3 / 10, 1 / 5], sigma1s = [1 / 10, 2 / 25, 1 / 20], j1s = [0, 0, 1],
      xi2s = [2 / 5, 1 / 5, 1 / 10], sigma2s = [1 / 10, 1 / 20, 1 / 40], j2s = [0, 1, 2]\<rparr>"

definition sample_calibrate :: calibrator where
  "sample_calibrate J0 Q0 =
     (if Q0 < 1 then Inl (ValueError ''Q should always be >= 1'') else Inr sample_calibration)"

text \<open>
  A small filter bank (two resolutions of the low-pass filter, two first-order filters, one
  second-order filter), the collaborators that return it, and the arguments of a transform
  on signals of length 4.
\<close>

definition sample_phi :: filter_dict where
  "sample_phi =
     [(IntKey 0, Numpy [1, 1 / 2, 0, 1 / 2]), (IntKey 1, Numpy [1, 0]),
      (StrKey ''xi'', Scalar 0), (StrKey ''sigma'', Scalar (1 / 40))]"

definition sample_psi1 :: "filter_dict list" where
  "sample_psi1 =
     [[(IntKey 0, Numpy [0, 1, 1 / 2, 0]), (StrKey ''xi'', Scalar (2 / 5))],
      [(IntKey 0, Numpy [0, 1 / 2, 1, 0]), (StrKey ''xi'', Scalar (1 / 5))]]"

definition sample_psi2 :: "filter_dict list" where
  "sample_psi2 =
     [[(IntKey 0, Numpy [0, 1, 0, 0]), (IntKey 1, Numpy [0, 1]),
       (StrKey ''xi'', Scalar (2 / 5))]]"

text \<open>A logarithm without rounding, for the sample collaborators.\<close>

definition sample_log2 :: "int \<Rightarrow> error + float64" where
  "sample_log2 k =
     (if k = 0 then Inr MinusInfinity
      else if k < 0 then Inr NotANumber
      else Inr (Finite (log 2 (real_of_int k))))"

definition sample_env :: env where
  "sample_env =
     \<lparr>ext_calibrate = sample_calibrate,
      ext_filter_factory = (\<lambda>J_support J0 Q0 opts. Inr (sample_phi, sample_psi1, sample_psi2, 2)),
      ext_compute_padding = (\<lambda>J_pad T0. Inr (2, 2)),
      ext_compute_border_indices = (\<lambda>J0 i0 i1. Inr ([(0, i0)], [(0, i1)])),
      ext_scattering1d = (\<lambda>args. Inr (OutTensor \<lparr>shape = [1, 1, 1], data = [0]\<rparr>)),
      ext_torch_backend = ''torch'',
      ext_log2 = sample_log2\<rparr>"

definition sample_args :: init_attrs where
  "sample_args =
     \<lparr>self_J = 3, self_shape = ShapeInt 4, self_Q = 1, self_max_order = 2,
      self_average = True, self_oversampling = 0, self_vectorize = True,
      self_backend = None\<rparr>"

text \<open>
  The attributes \<open>build\<close> would hand to \<open>create_and_register_filters\<close>, and the object
  that function makes of them.
\<close>

definition sample_built :: built_attrs where
  "sample_built =
     init_attrs.extend (sample_args\<lparr>self_backend := Some ''torch''\<rparr>)
       (built_attrs.fields (sqrt (1 / 2)) (1 / 10) 5 5 (1 / 10000000) (1 / 1000) ''l1''
          4 3 2 2 [(0, 2)] [(0, 6)])"

definition sample_object :: scattering1d_torch where
  "sample_object =
     built_attrs.extend sample_built
       (scattering1d_torch.fields
          [[(IntKey 0, Torch [(0, 0), (1, 1), (1 / 2, 1 / 2), (0, 0)]),
            (StrKey ''xi'', Scalar (2 / 5))],
           [(IntKey 0, Torch [(0, 0), (1 / 2, 1 / 2), (1, 1), (0, 0)]),
            (StrKey ''xi'', Scalar (1 / 5))]]
          [[(IntKey 0, Torch [(0, 0), (1, 1), (0, 0), (0, 0)]),
            (IntKey 1, Torch [(0, 0), (1, 1)]), (StrKey ''xi'', Scalar (2 / 5))]]
          [(IntKey 0, Torch [(1, 1), (1 / 2, 1 / 2), (0, 0), (1 / 2, 1 / 2)]),
           (IntKey 1, Torch [(1, 1), (0, 0)]),
           (StrKey ''xi'', Scalar 0), (StrKey ''sigma'', Scalar (1 / 40))]
          [0 \<mapsto> Torch [(1, 1), (1 / 2, 1 / 2), (0, 0), (1 / 2, 1 / 2)],
           1 \<mapsto> Torch [(1, 1), (0, 0)],
           2 \<mapsto> Torch [(0, 0), (1, 1), (1 / 2, 1 / 2), (0, 0)],
           3 \<mapsto> Torch [(0, 0), (1 / 2, 1 / 2), (1, 1), (0, 0)],
           4 \<mapsto> Torch [(0, 0), (1, 1), (0, 0), (0, 0)],
           5 \<mapsto> Torch [(0, 0), (1, 1)]])"

text \<open>Two batches of signals of length 4, and a tensor whose only axis is empty.\<close>

definition sample_signal :: "real array" where
  "sample_signal = \<lparr>shape = [2, 4], data = [1, 0, 0, 0, 0, 1, 0, 0]\<rparr>"

definition empty_signal :: "real array" where
  "empty_signal = \<lparr>shape = [0], data = []\<rparr>"

text \<open>The number of entries of a filter dictionary whose key is not a string.\<close>

fun int_keys :: "filter_dict \<Rightarrow> nat" where
  "int_keys [] = 0"
| "int_keys ((StrKey k, v) # rest) = int_keys rest"
| "int_keys ((IntKey k, v) # rest) = Suc (int_keys rest)"

text \<open>
  The message of the error that \<open>forward\<close> raises for \<open>vectorize\<close> without
  \<open>average\<close>, and the one of \<open>reshape\<close> for an inferred dimension beside an empty one.
\<close>

definition incompatible_options :: string where
  "incompatible_options =
     ''Options average=False and vectorize=True are mutually incompatible. Please set vectorize to False.''"

definition ambiguous_reshape :: string where
  "ambiguous_reshape =
     ''cannot reshape tensor of 0 elements: the unspecified dimension size -1 can be any value and is ambiguous''"

text \<open>
  A frontend whose constructor runs the calibrator on its \<open>J\<close> and \<open>Q\<close>, as a stand-in
  for the numpy frontend.
\<close>

definition calibrating_init :: "init_attrs \<Rightarrow> error + calibration" where
  "calibrating_init args = sample_calibrate (self_J args) (self_Q args)"

text \<open>The same object with \<open>average\<close> set to \<open>False\<close> after its creation.\<close>

definition unaveraged_object :: scattering1d_torch where
  "unaveraged_object = sample_object\<lparr>self_average := False\<rparr>"

text \<open>
  A spectrum of one image of two rows and two columns, one whose spatial axis of rows is
  empty, and an array of one row and two columns.
\<close>

definition sample_spectrum :: "complex array" where
  "sample_spectrum = \<lparr>shape = [1, 1, 2, 2], data = [1, 2, 3, 4]\<rparr>"

definition empty_rows :: "complex array" where
  "empty_rows = \<lparr>shape = [1, 1, 0, 4], data = []\<rparr>"

definition sample_row :: "complex array" where
  "sample_row = \<lparr>shape = [1, 2], data = [1, 0]\<rparr>"

text \<open>The transform of \<open>sample_row\<close>, and \<open>sample_row\<close> with every entry doubled.\<close>

definition sample_row_transform :: "complex array" where
  "sample_row_transform = \<lparr>shape = [1, 2], data = [1, 1]\<rparr>"

definition sample_row_doubled :: "complex array" where
  "sample_row_doubled = \<lparr>shape = [1, 2], data = [2, 0]\<rparr>"

text \<open>An image of no rows and two columns.\<close>

definition empty_image :: "complex array" where
  "empty_image = \<lparr>shape = [0, 2], data = []\<rparr>"

section \<open>The order-2 paths and the sizes\<close>

lemma sel2_simps [simp]:
  "sel2 j1 [] = []"
  "sel2 j1 (r # rows) = (if j1 < snd (snd (snd r)) then r # sel2 j1 rows else sel2 j1 rows)"
  by (simp_all add: sel2_def)

lemma inner_fold_key:
  "key_l (foldl (order2_step (n1, x1, s1, j1)) m rows) =
     (key_l m)\<lparr>at2 := at2 (key_l m) @ map (\<lambda>r. [n1, fst r]) (sel2 j1 rows)\<rparr>"
  by (induction rows arbitrary: m) (auto simp: order2_step_def append2_def)

lemma inner_fold_order:
  "order_l (foldl (order2_step (n1, x1, s1, j1)) m rows) =
     (order_l m)\<lparr>at2 := at2 (order_l m) @ map (\<lambda>r. 2) (sel2 j1 rows)\<rparr>"
  by (induction rows arbitrary: m) (auto simp: order2_step_def append2_def)

lemma inner_fold_j:
  "j_l (foldl (order2_step (n1, x1, s1, j1)) m rows) =
     (j_l m)\<lparr>at2 := at2 (j_l m) @ map (\<lambda>r. [j1, snd (snd (snd r))]) (sel2 j1 rows)\<rparr>"
  by (induction rows arbitrary: m) (auto simp: order2_step_def append2_def)

lemma step1_key:
  "key_l (order1_step mo cal m r1) =
     (key_l m)\<lparr>at1 := at1 (key_l m) @ [[fst r1]],
               at2 := at2 (key_l m) @ map (\<lambda>r. [fst r1, fst r]) (second_of mo cal r1)\<rparr>"
  by (cases r1) (simp add: order1_step_def Let_def inner_fold_key append1_def second_of_def)

lemma step1_order:
  "order_l (order1_step mo cal m r1) =
     (order_l m)\<lparr>at1 := at1 (order_l m) @ [1],
               at2 := at2 (order_l m) @ map (\<lambda>r. 2) (second_of mo cal r1)\<rparr>"
  by (cases r1) (simp add: order1_step_def Let_def inner_fold_order append1_def second_of_def)

lemma step1_j:
  "j_l (order1_step mo cal m r1) =
     (j_l m)\<lparr>at1 := at1 (j_l m) @ [[snd (snd (snd r1))]],
               at2 := at2 (j_l m) @
                 map (\<lambda>r. [snd (snd (snd r1)), snd (snd (snd r))]) (second_of mo cal r1)\<rparr>"
  by (cases r1) (simp add: order1_step_def Let_def inner_fold_j append1_def second_of_def)

lemma outer_fold_key:
  "key_l (foldl (order1_step mo cal) m rows) =
     (key_l m)\<lparr>at1 := at1 (key_l m) @ map (\<lambda>r1. [fst r1]) rows,
               at2 := at2 (key_l m) @
                 concat (map (\<lambda>r1. map (\<lambda>r. [fst r1, fst r]) (second_of mo cal r1)) rows)\<rparr>"
  by (induction rows arbitrary: m) (simp_all add: step1_key)

lemma outer_fold_order:
  "order_l (foldl (order1_step mo cal) m rows) =
     (order_l m)\<lparr>at1 := at1 (order_l m) @ map (\<lambda>r1. 1) rows,
               at2 := at2 (order_l m) @
                 concat (map (\<lambda>r1. map (\<lambda>r. 2) (second_of mo cal r1)) rows)\<rparr>"
  by (induction rows arbitrary: m) (simp_all add: step1_order)

lemma outer_fold_j:
  "j_l (foldl (order1_step mo cal) m rows) =
     (j_l m)\<lparr>at1 := at1 (j_l m) @ map (\<lambda>r1. [snd (snd (snd r1))]) rows,
               at2 := at2 (j_l m) @
                 concat (map (\<lambda>r1. map (\<lambda>r. [snd (snd (snd r1)), snd (snd (snd r))])
                   (second_of mo cal r1)) rows)\<rparr>"
  by (induction rows arbitrary: m) (simp_all add: step1_j)

lemma key_closed:
  "meta_key (meta_padded mo (meta_loops mo cal)) =
     [] # map (\<lambda>r1. [fst r1]) (rows1 cal) @
     concat (map (\<lambda>r1. map (\<lambda>r. [fst r1, fst r]) (second_of mo cal r1)) (rows1 cal))"
  by (simp add: meta_padded_def meta_loops_def outer_fold_key flatten3_def meta_init_def
      append0_def empty3_def)

lemma order_closed:
  "meta_order (meta_padded mo (meta_loops mo cal)) =
     0 # map (\<lambda>r1. 1) (rows1 cal) @
     concat (map (\<lambda>r1. map (\<lambda>r. 2) (second_of mo cal r1)) (rows1 cal))"
  by (simp add: meta_padded_def meta_loops_def outer_fold_order flatten3_def meta_init_def
      append0_def empty3_def)

lemma j_closed:
  "meta_j (meta_padded mo (meta_loops mo cal)) = map (pad_row mo) (
     [] # map (\<lambda>r1. [snd (snd (snd r1))]) (rows1 cal) @
     concat (map (\<lambda>r1. map (\<lambda>r. [snd (snd (snd r1)), snd (snd (snd r))])
       (second_of mo cal r1)) (rows1 cal)))"
  by (simp add: meta_padded_def meta_loops_def outer_fold_j flatten3_def meta_init_def
      append0_def empty3_def)

lemma inner_fold_xi:
  "xi_l (foldl (order2_step (n1, x1, s1, j1)) m rows) =
     (xi_l m)\<lparr>at2 := at2 (xi_l m) @ map (\<lambda>r. [x1, fst (snd r)]) (sel2 j1 rows)\<rparr>"
  by (induction rows arbitrary: m) (auto simp: order2_step_def append2_def)

lemma inner_fold_sigma:
  "sigma_l (foldl (order2_step (n1, x1, s1, j1)) m rows) =
     (sigma_l m)\<lparr>at2 := at2 (sigma_l m) @ map (\<lambda>r. [s1, fst (snd (snd r))]) (sel2 j1 rows)\<rparr>"
  by (induction rows arbitrary: m) (auto simp: order2_step_def append2_def)

lemma inner_fold_n:
  "n_l (foldl (order2_step (n1, x1, s1, j1)) m rows) =
     (n_l m)\<lparr>at2 := at2 (n_l m) @ map (\<lambda>r. [n1, fst r]) (sel2 j1 rows)\<rparr>"
  by (induction rows arbitrary: m) (auto simp: order2_step_def append2_def)

lemma step1_xi:
  "xi_l (order1_step mo cal m r1) =
     (xi_l m)\<lparr>at1 := at1 (xi_l m) @ [[fst (snd r1)]],
               at2 := at2 (xi_l m) @
                 map (\<lambda>r. [fst (snd r1), fst (snd r)]) (second_of mo cal r1)\<rparr>"
  by (cases r1) (simp add: order1_step_def Let_def inner_fold_xi append1_def second_of_def)

lemma step1_sigma:
  "sigma_l (order1_step mo cal m r1) =
     (sigma_l m)\<lparr>at1 := at1 (sigma_l m) @ [[fst (snd (snd r1))]],
               at2 := at2 (sigma_l m) @
                 map (\<lambda>r. [fst (snd (snd r1)), fst (snd (snd r))]) (second_of mo cal r1)\<rparr>"
  by (cases r1) (simp add: order1_step_def Let_def inner_fold_sigma append1_def second_of_def)

lemma step1_n:
  "n_l (order1_step mo cal m r1) =
     (n_l m)\<lparr>at1 := at1 (n_l m) @ [[fst r1]],
               at2 := at2 (n_l m) @ map (\<lambda>r. [fst r1, fst r]) (second_of mo cal r1)\<rparr>"
  by (cases r1) (simp add: order1_step_def Let_def inner_fold_n append1_def second_of_def)

lemma outer_fold_xi:
  "xi_l (foldl (order1_step mo cal) m rows) =
     (xi_l m)\<lparr>at1 := at1 (xi_l m) @ map (\<lambda>r1. [fst (snd r1)]) rows,
               at2 := at2 (xi_l m) @
                 concat (map (\<lambda>r1. map (\<lambda>r. [fst (snd r1), fst (snd r)])
                   (second_of mo cal r1)) rows)\<rparr>"
  by (induction rows arbitrary: m) (simp_all add: step1_xi)

lemma outer_fold_sigma:
  "sigma_l (foldl (order1_step mo cal) m rows) =
     (sigma_l m)\<lparr>at1 := at1 (sigma_l m) @ map (\<lambda>r1. [fst (snd (snd r1))]) rows,
               at2 := at2 (sigma_l m) @
                 concat (map (\<lambda>r1. map (\<lambda>r. [fst (snd (snd r1)), fst (snd (snd r))])
                   (second_of mo cal r1)) rows)\<rparr>"
  by (induction rows arbitrary: m) (simp_all add: step1_sigma)

lemma outer_fold_n:
  "n_l (foldl (order1_step mo cal) m rows) =
     (n_l m)\<lparr>at1 := at1 (n_l m) @ map (\<lambda>r1. [fst r1]) rows,
               at2 := at2 (n_l m) @
                 concat (map (\<lambda>r1. map (\<lambda>r. [fst r1, fst r]) (second_of mo cal r1)) rows)\<rparr>"
  by (induction rows arbitrary: m) (simp_all add: step1_n)

lemma xi_closed:
  "meta_xi (meta_padded mo (meta_loops mo cal)) = map (pad_row mo) (
     [] # map (\<lambda>r1. [fst (snd r1)]) (rows1 cal) @
     concat (map (\<lambda>r1. map (\<lambda>r. [fst (snd r1), fst (snd r)])
       (second_of mo cal r1)) (rows1 cal)))"
  by (simp add: meta_padded_def meta_loops_def outer_fold_xi flatten3_def meta_init_def
      append0_def empty3_def)

lemma sigma_closed:
  "meta_sigma (meta_padded mo (meta_loops mo cal)) = map (pad_row mo) (
     [] # map (\<lambda>r1. [fst (snd (snd r1))]) (rows1 cal) @
     concat (map (\<lambda>r1. map (\<lambda>r. [fst (snd (snd r1)), fst (snd (snd r))])
       (second_of mo cal r1)) (rows1 cal)))"
  by (simp add: meta_padded_def meta_loops_def outer_fold_sigma flatten3_def meta_init_def
      append0_def empty3_def)

lemma n_closed:
  "meta_n (meta_padded mo (meta_loops mo cal)) = map (pad_row mo) (
     [] # map (\<lambda>r1. [fst r1]) (rows1 cal) @
     concat (map (\<lambda>r1. map (\<lambda>r. [fst r1, fst r]) (second_of mo cal r1)) (rows1 cal)))"
  by (simp add: meta_padded_def meta_loops_def outer_fold_n flatten3_def meta_init_def
      append0_def empty3_def)

text \<open>
  For a positive \<open>max_order\<close> every padded row has \<open>max_order\<close> cells, and the
  conversion to arrays succeeds.
\<close>

lemma padded_rectangular:
  assumes "1 \<le> mo"
  shows "rectangular (map (pad_row mo) ([] # map (\<lambda>r1. [f r1]) rs @
     concat (map (\<lambda>r1. map (\<lambda>r. [g r1, h r]) (second_of mo cal r1)) rs)))"
proof -
  have len: "length (pad_row mo r) = nat mo" if "int (length r) \<le> mo" for r :: "'a list"
    using that by (simp add: pad_row_def)
  have two: "2 \<le> mo" if "r \<in> set (second_of mo cal r1)" for r r1
    using that by (cases "mo < 2") (simp_all add: second_of_def)
  have "length row = nat mo"
    if "row \<in> set (map (pad_row mo) ([] # map (\<lambda>r1. [f r1]) rs @
      concat (map (\<lambda>r1. map (\<lambda>r. [g r1, h r]) (second_of mo cal r1)) rs)))" for row
    using that assms by (auto simp: len dest: two)
  then show ?thesis
    using assms by (simp add: rectangular_def list_all_iff len)
qed

lemma meta_finish_returns:
  "1 \<le> mo \<Longrightarrow>
   meta_finish mo (meta_loops mo cal) = Inr (meta_padded mo (meta_loops mo cal))"
  by (simp add: meta_finish_def Let_def xi_closed sigma_closed j_closed n_closed
      padded_rectangular del: list.map map_append)

lemma rows_eq:
  "length ss = length xs \<Longrightarrow> length js = length xs \<Longrightarrow>
   enumerate 0 (zip xs (zip ss js)) = map (\<lambda>i. (i, xs ! i, ss ! i, js ! i)) [0..<length xs]"
  by (rule nth_equalityI) (simp_all add: nth_enumerate_eq)

lemma rows1_idx:
  "parallel cal \<Longrightarrow>
   rows1 cal = map (\<lambda>i. (i, xi1s cal ! i, sigma1s cal ! i, j1s cal ! i)) [0..<length (xi1s cal)]"
  by (simp add: rows1_def parallel_def rows_eq)

lemma rows2_idx:
  "parallel cal \<Longrightarrow>
   rows2 cal = map (\<lambda>i. (i, xi2s cal ! i, sigma2s cal ! i, j2s cal ! i)) [0..<length (xi2s cal)]"
  by (simp add: rows2_def parallel_def rows_eq)

lemma second_of_idx:
  assumes "parallel cal" "2 \<le> mo"
  shows "second_of mo cal (n1, x, s, j1s cal ! n1) =
         map (\<lambda>i. (i, xi2s cal ! i, sigma2s cal ! i, j2s cal ! i)) (valid2 cal n1)"
  using assms by (simp add: second_of_def sel2_def rows2_idx filter_map o_def valid2_def)

lemma key_idx:
  assumes "parallel cal" "2 \<le> mo"
  shows "meta_key (meta_padded mo (meta_loops mo cal)) =
     [] # map (\<lambda>n1. [n1]) [0..<length (xi1s cal)] @
     concat (map (\<lambda>n1. map (\<lambda>n2. [n1, n2]) (valid2 cal n1)) [0..<length (xi1s cal)])"
  using assms by (simp add: key_closed rows1_idx o_def second_of_idx)

lemma j_idx:
  assumes "parallel cal" "2 \<le> mo"
  shows "meta_j (meta_padded mo (meta_loops mo cal)) = map (pad_row mo) (
     [] # map (\<lambda>n1. [j1s cal ! n1]) [0..<length (xi1s cal)] @
     concat (map (\<lambda>n1. map (\<lambda>n2. [j1s cal ! n1, j2s cal ! n2]) (valid2 cal n1))
       [0..<length (xi1s cal)]))"
  using assms by (simp add: j_closed rows1_idx o_def second_of_idx)

lemma distinct_pairs:
  "distinct ns \<Longrightarrow> (\<And>a. distinct (G a)) \<Longrightarrow>
   distinct (concat (map (\<lambda>a. map (\<lambda>b. [a, b]) (G a)) ns))"
  by (induction ns) (auto simp: distinct_map inj_on_def)

lemma inner_count:
  "n1 < length j1 \<Longrightarrow> \<forall>n2 \<in> set ns. n2 < length j2 \<Longrightarrow>
   foldl (size2_inner j1 j2 n1) (Inr s) ns =
     Inr (s + length (filter (\<lambda>n2. j1 ! n1 < j2 ! n2) ns))"
  by (induction ns arbitrary: s) (simp_all add: size2_inner_def py_index_def)

lemma outer_count:
  "parallel cal \<Longrightarrow> \<forall>n1 \<in> set ns. n1 < length (xi1s cal) \<Longrightarrow>
   foldl (size2_outer cal) (Inr s) ns =
     Inr (s + sum_list (map (\<lambda>n1. length (valid2 cal n1)) ns))"
  by (induction ns arbitrary: s)
     (simp_all add: size2_outer_def inner_count parallel_def valid2_def)

lemma size_order2_closed:
  "parallel cal \<Longrightarrow>
   size_order2 cal =
     Inr (sum_list (map (\<lambda>n1. length (valid2 cal n1)) [0..<length (xi1s cal)]))"
  by (simp add: size_order2_def outer_count)

lemma key_first_only:
  "mo < 2 \<Longrightarrow>
   meta_key (meta_padded mo (meta_loops mo cal)) = [] # map (\<lambda>r1. [fst r1]) (rows1 cal)"
  by (simp add: key_closed second_of_def)

lemma length_rows1: "parallel cal \<Longrightarrow> length (rows1 cal) = length (xi1s cal)"
  by (simp add: rows1_idx)

lemma order_length_eq_key_length:
  "length (meta_order (meta_padded mo (meta_loops mo cal))) =
   length (meta_key (meta_padded mo (meta_loops mo cal)))"
  by (simp add: order_closed key_closed length_concat o_def)

lemma key_length_2:
  assumes "parallel cal"
  shows "length (meta_key (meta_padded 2 (meta_loops 2 cal))) =
         1 + length (xi1s cal) +
         sum_list (map (\<lambda>n1. length (valid2 cal n1)) [0..<length (xi1s cal)])"
  using assms by (simp add: key_idx length_concat o_def)

lemma order2_keys:
  assumes "parallel cal"
  shows "filter (\<lambda>k. length k = 2) (meta_key (meta_padded 2 (meta_loops 2 cal))) =
         concat (map (\<lambda>n1. map (\<lambda>n2. [n1, n2]) (valid2 cal n1)) [0..<length (xi1s cal)])"
  using assms by (simp add: key_idx filter_map o_def filter_concat)

lemma key_distinct_2:
  assumes "parallel cal"
  shows "distinct (meta_key (meta_padded 2 (meta_loops 2 cal)))"
  using assms by (auto simp: key_idx distinct_map inj_on_def distinct_pairs valid2_def)

lemma key_members_2:
  assumes "parallel cal"
  shows "[n1, n2] \<in> set (meta_key (meta_padded 2 (meta_loops 2 cal))) \<longleftrightarrow>
         n1 < length (j1s cal) \<and> n2 < length (j2s cal) \<and> j1s cal ! n1 < j2s cal ! n2"
  using assms by (auto simp: key_idx valid2_def parallel_def)

lemma j_from_key_2:
  assumes "parallel cal"
  shows "meta_j (meta_padded 2 (meta_loops 2 cal)) =
         map (\<lambda>k. pad_row 2 (map2 (\<lambda>js i. js ! i) [j1s cal, j2s cal] k))
           (meta_key (meta_padded 2 (meta_loops 2 cal)))"
  using assms by (simp add: key_idx j_idx o_def map_concat)

lemma sample_calibrate_returns: "sample_calibrate 3 1 = Inr sample_calibration"
  by (simp add: sample_calibrate_def)

lemma sample_parallel: "parallel sample_calibration"
  by (simp add: parallel_def sample_calibration_def)

text \<open>
  With \<open>max_order = 0\<close> nothing is padded: the row of order 0 is empty, the rows of
  order 1 hold one cell, and the conversion to an array is refused.
\<close>

lemma order_zero_is_refused:
  "compute_meta_scattering sample_calibrate 3 1 0 =
     Inl (ValueError ''setting an array element with a sequence.'')"
  by (simp add: compute_meta_scattering_def sample_calibrate_returns meta_finish_def Let_def
      xi_closed rectangular_def pad_row_def rows1_def sample_calibration_def second_of_def)

text \<open>
  C1. With the sequences of a calibration in parallel, the order-2 paths that
  \<open>compute_meta_scattering\<close> lists for \<open>max_order = 2\<close> are exactly the pairs
  \<open>(n1, n2)\<close> of a first-order and a second-order filter with \<open>j2[n2] > j1[n1]\<close>, each
  of them once; the row of \<open>meta['j']\<close> that goes with a path holds the scales of its
  filters; and \<open>precompute_size_scattering\<close> counts as many order-2 coefficients as there
  are such paths.
\<close>

theorem order2_paths_are_the_pairs_with_larger_scale:
  assumes "calibrate J Q = Inr cal" and "parallel cal"
  shows "\<exists>m s2.
     compute_meta_scattering calibrate J Q 2 = Inr m \<and>
     precompute_size_scattering calibrate J Q 2 True = Inr (Sizes [1, length (xi1s cal), s2]) \<and>
     s2 = length (filter (\<lambda>k. length k = 2) (meta_key m)) \<and>
     distinct (meta_key m) \<and>
     (\<forall>n1 n2. [n1, n2] \<in> set (meta_key m) \<longleftrightarrow>
        n1 < length (j1s cal) \<and> n2 < length (j2s cal) \<and> j1s cal ! n1 < j2s cal ! n2) \<and>
     meta_j m = map (\<lambda>k. pad_row 2 (map2 (\<lambda>js i. js ! i) [j1s cal, j2s cal] k)) (meta_key m)"
proof -
  let ?m = "meta_padded 2 (meta_loops 2 cal)"
  let ?s2 = "sum_list (map (\<lambda>n1. length (valid2 cal n1)) [0..<length (xi1s cal)])"
  have 1: "compute_meta_scattering calibrate J Q 2 = Inr ?m"
    by (simp add: compute_meta_scattering_def assms(1) meta_finish_returns)
  have 2: "precompute_size_scattering calibrate J Q 2 True =
           Inr (Sizes [1, length (xi1s cal), ?s2])"
    by (simp add: precompute_size_scattering_def assms(1) size_order2_closed [OF assms(2)])
  have 3: "?s2 = length (filter (\<lambda>k. length k = 2) (meta_key ?m))"
    by (simp add: order2_keys [OF assms(2)] length_concat o_def)
  show ?thesis
    using 1 2 3 key_distinct_2 [OF assms(2)] key_members_2 [OF assms(2)]
      j_from_key_2 [OF assms(2)]
    by blast
qed

theorem order2_paths_witness:
  "sample_calibrate 3 1 = Inr sample_calibration \<and> parallel sample_calibration \<and>
   (\<exists>m s2.
     compute_meta_scattering sample_calibrate 3 1 2 = Inr m \<and>
     precompute_size_scattering sample_calibrate 3 1 2 True =
       Inr (Sizes [1, length (xi1s sample_calibration), s2]) \<and>
     s2 = length (filter (\<lambda>k. length k = 2) (meta_key m)) \<and>
     distinct (meta_key m) \<and>
     (\<forall>n1 n2. [n1, n2] \<in> set (meta_key m) \<longleftrightarrow>
        n1 < length (j1s sample_calibration) \<and> n2 < length (j2s sample_calibration) \<and>
        j1s sample_calibration ! n1 < j2s sample_calibration ! n2) \<and>
     meta_j m =
       map (\<lambda>k. pad_row 2
            (map2 (\<lambda>js i. js ! i) [j1s sample_calibration, j2s sample_calibration] k))
         (meta_key m))"
  using order2_paths_are_the_pairs_with_larger_scale
    [of sample_calibrate 3 1 sample_calibration, OF sample_calibrate_returns sample_parallel]
    sample_calibrate_returns sample_parallel
  by blast

text \<open>
  C4. For \<open>max_order\<close> 1 or 2 the counts that \<open>precompute_size_scattering\<close> returns with
  \<open>detail = True\<close> add up to the count it returns with \<open>detail = False\<close>, which is the
  length of the lists \<open>order\<close> and \<open>key\<close> that \<open>compute_meta_scattering\<close> returns.
\<close>

theorem detailed_sizes_sum_to_total_and_count_paths:
  assumes "calibrate J Q = Inr cal" and "parallel cal" and "max_order = 1 \<or> max_order = 2"
  shows "\<exists>sizes total m.
     precompute_size_scattering calibrate J Q max_order True = Inr (Sizes sizes) \<and>
     precompute_size_scattering calibrate J Q max_order False = Inr (Total total) \<and>
     sum_list sizes = total \<and>
     compute_meta_scattering calibrate J Q max_order = Inr m \<and>
     length (meta_order m) = total \<and> length (meta_key m) = total"
proof -
  let ?m = "meta_padded max_order (meta_loops max_order cal)"
  have "1 \<le> max_order"
    using assms(3) by auto
  then have m: "compute_meta_scattering calibrate J Q max_order = Inr ?m"
    by (simp add: compute_meta_scattering_def assms(1) meta_finish_returns)
  have ok: "length (meta_order ?m) = length (meta_key ?m)"
    by (rule order_length_eq_key_length)
  from assms(3) show ?thesis
  proof
    assume mo: "max_order = 1"
    have "length (meta_key ?m) = 1 + length (xi1s cal)"
      by (simp add: mo key_first_only length_rows1 [OF assms(2)])
    then show ?thesis
      using m ok
      by (simp add: precompute_size_scattering_def assms(1) size_order2_closed [OF assms(2)] mo)
  next
    assume mo: "max_order = 2"
    show ?thesis
      using m ok key_length_2 [OF assms(2)]
      by (simp add: precompute_size_scattering_def assms(1) size_order2_closed [OF assms(2)] mo)
  qed
qed

theorem detailed_sizes_witness:
  "sample_calibrate 3 1 = Inr sample_calibration \<and> parallel sample_calibration \<and>
   (\<exists>sizes total m.
     precompute_size_scattering sample_calibrate 3 1 1 True = Inr (Sizes sizes) \<and>
     precompute_size_scattering sample_calibrate 3 1 1 False = Inr (Total total) \<and>
     sum_list sizes = total \<and>
     compute_meta_scattering sample_calibrate 3 1 1 = Inr m \<and>
     length (meta_order m) = total \<and> length (meta_key m) = total) \<and>
   (\<exists>sizes total m.
     precompute_size_scattering sample_calibrate 3 1 2 True = Inr (Sizes sizes) \<and>
     precompute_size_scattering sample_calibrate 3 1 2 False = Inr (Total total) \<and>
     sum_list sizes = total \<and>
     compute_meta_scattering sample_calibrate 3 1 2 = Inr m \<and>
     length (meta_order m) = total \<and> length (meta_key m) = total)"
  using detailed_sizes_sum_to_total_and_count_paths
      [of sample_calibrate 3 1 sample_calibration 1,
       OF sample_calibrate_returns sample_parallel]
    detailed_sizes_sum_to_total_and_count_paths
      [of sample_calibrate 3 1 sample_calibration 2,
       OF sample_calibrate_returns sample_parallel]
    sample_calibrate_returns sample_parallel
  by simp

section \<open>Construction\<close>

lemma resolve_min_support:
  "resolve_name build_locals ''compute_minimum_support_to_pad'' =
     Inl (NameError ''compute_minimum_support_to_pad'')"
  by (simp add: resolve_name_def build_locals_def module_globals_def python_builtins_def)

lemma resolve_pad:
  "resolve_name forward_locals ''pad'' = Inl (NameError ''pad'')"
  by (simp add: resolve_name_def forward_locals_def module_globals_def python_builtins_def)

lemma resolve_scattering1d:
  "resolve_name forward_locals ''scattering1d'' = Inr ()"
  by (simp add: resolve_name_def forward_locals_def module_globals_def python_builtins_def)

lemma lookup_psi_f: "lookup_attribute ''psi_f'' = Inl (AttributeError ''psi_f'')"
  by (simp add: lookup_attribute_def instance_attributes_def class_attributes_def)

text \<open>The sample object is the one \<open>create_and_register_filters\<close> makes of the sample filters.\<close>

lemma sample_object_created:
  "create_and_register_filters sample_env sample_built = Inr sample_object"
  by (simp add: create_and_register_filters_def sample_env_def sample_built_def sample_object_def
      on_success_def sample_phi_def sample_psi1_def sample_psi2_def from_numpy_repeat_def
      sample_args_def init_attrs.defs built_attrs.defs scattering1d_torch.defs
      eval_nat_numeral)

lemma on_success_Inl [simp]: "on_success (Inl e) f = Inl e"
  by (simp add: on_success_def)

lemma on_success_Inr [simp]: "on_success (Inr v) f = f v"
  by (simp add: on_success_def)

lemma build_raises: "\<exists>e. build ev s = Inl e"
  by (simp add: build_def resolve_min_support Let_def
      split: option.split shape_arg.split list.split)

lemma build_valid_raises_name_error:
  "valid_args s \<Longrightarrow> build ev s = Inl (NameError ''compute_minimum_support_to_pad'')"
  by (auto simp: build_def resolve_min_support Let_def valid_args_def
      split: option.splits shape_arg.splits list.splits)

text \<open>
  C2. Constructing a \<open>Scattering1DTorch\<close> object never completes, whatever the
  arguments and whatever the collaborators do: \<open>build\<close> ends in an exception. For
  arguments that pass the checks of the backend and of the shape, the exception is the
  \<open>NameError\<close> of the bare name \<open>compute_minimum_support_to_pad\<close>, which the class
  body defines and the module does not bind; it is raised before the padding and the
  filters are computed.
\<close>

theorem construction_never_completes:
  "(\<exists>e. Scattering1DTorch_init ev args = Inl e) \<and>
   (valid_args args \<longrightarrow>
      Scattering1DTorch_init ev args = Inl (NameError ''compute_minimum_support_to_pad'')) \<and>
   ''compute_minimum_support_to_pad'' \<in> set class_attributes \<and>
   ''compute_minimum_support_to_pad'' \<notin> set module_globals"
  using build_raises [of ev args] build_valid_raises_name_error [of args ev]
  by (simp add: Scattering1DTorch_init_def class_attributes_def module_globals_def)

lemma sample_args_valid: "valid_args sample_args"
  by (simp add: valid_args_def sample_args_def)

theorem construction_never_completes_witness:
  "valid_args sample_args \<and>
   Scattering1DTorch_init sample_env sample_args =
     Inl (NameError ''compute_minimum_support_to_pad'')"
  using construction_never_completes [of sample_env sample_args] sample_args_valid
  by simp

text \<open>
  C7. \<open>build\<close> is to pad by three times the support of the low-pass filter and to set
  \<open>J_pad\<close> from it. For \<open>J = 6\<close>, \<open>shape = 8192\<close>, \<open>Q = 8\<close> it raises
  \<open>NameError\<close> at the call that would compute the minimum pad, so that neither value is
  ever set.
\<close>

theorem build_stops_before_the_padding_plan:
  "build ev \<lparr>self_J = 6, self_shape = ShapeInt 8192, self_Q = 8, self_max_order = 2,
             self_average = True, self_oversampling = 0, self_vectorize = True,
             self_backend = None\<rparr> =
     Inl (NameError ''compute_minimum_support_to_pad'')"
  by (rule build_valid_raises_name_error) (simp add: valid_args_def)

text \<open>
  The function that \<open>build\<close> fails to reach does return three times the support that
  the filter factory reports.
\<close>

lemma minimum_support_is_three_times_t_max_phi:
  "compute_minimum_support_to_pad ev T0 J0 Q0 opts = Inr p \<Longrightarrow>
   \<exists>J_tentative phi psi1 psi2 t_max_phi.
     ceil_log2 ev T0 = Inr J_tentative \<and>
     ext_filter_factory ev J_tentative J0 Q0
       (opts\<lparr>to_torch := Some False, max_subsampling := Some 0\<rparr>) =
         Inr (phi, psi1, psi2, t_max_phi) \<and>
     p = 3 * t_max_phi"
  by (auto simp: compute_minimum_support_to_pad_def on_success_def Let_def
      split: sum.splits prod.splits)

text \<open>
  C6. Whatever exception the constructor of the chosen frontend raises, the public
  constructor raises the \<open>RuntimeError\<close> of its \<open>except\<close> clause in its place; with
  the torch frontend it does so for every argument list.
\<close>

theorem public_constructor_replaces_every_error:
  "Scattering1D_init ev (\<lambda>a. Inl e) tensorflow_init None args =
     Inl (RuntimeError ''Make sure NumPy is correctly installed.'') \<and>
   Scattering1D_init ev numpy_init tensorflow_init (Some ''torch'') args =
     Inl (RuntimeError ''Make sure PyTorch is correctly installed.'') \<and>
   Scattering1D_init ev numpy_init (\<lambda>a. Inl e) (Some ''tensorflow'') args =
     Inl (RuntimeError ''Make sure TensorFlow is correctly installed.'')"
  using build_raises [of ev args]
  by (auto simp: Scattering1D_init_def Scattering1DTorch_init_def)

text \<open>With \<open>Q = 0\<close> the calibrator's \<open>ValueError\<close> reaches the caller as that \<open>RuntimeError\<close>.\<close>

lemma invalid_Q_is_reported_as_missing_numpy:
  "calibrating_init (sample_args\<lparr>self_Q := 0\<rparr>) = Inl (ValueError ''Q should always be >= 1'') \<and>
   Scattering1D_init sample_env calibrating_init calibrating_init None
       (sample_args\<lparr>self_Q := 0\<rparr>) =
     Inl (RuntimeError ''Make sure NumPy is correctly installed.'')"
  by (simp add: Scattering1D_init_def calibrating_init_def sample_calibrate_def sample_args_def)

section \<open>forward\<close>

lemma infer_signal_shape:
  "0 < t \<Longrightarrow> infer_size [- 1, 1, int t] (b * t) = Inr [b, 1, t]"
  by (simp add: infer_size_def)

lemma infer_empty_signal:
  "infer_size [- 1, 1, 0] 0 = Inl (RuntimeError ambiguous_reshape)"
  by (simp add: infer_size_def ambiguous_reshape_def)

lemma prod_list_snoc_last:
  "xs \<noteq> [] \<Longrightarrow> prod_list xs = prod_list (butlast xs) * (last xs :: nat)"
  by (induction xs) (auto simp: mult.assoc)

lemma reshape_signal:
  assumes "shape x \<noteq> []" "last (shape x) \<noteq> 0"
  shows "reshape x [- 1, 1, int (last (shape x))] =
         Inr (x\<lparr>shape := [prod_list (butlast (shape x)), 1, last (shape x)]\<rparr>)"
  using assms
  by (simp add: reshape_def prod_list_snoc_last [OF assms(1)] infer_signal_shape)

lemma reshape_empty_signal:
  assumes "shape x \<noteq> []" "last (shape x) = 0"
  shows "reshape x [- 1, 1, int (last (shape x))] = Inl (RuntimeError ambiguous_reshape)"
  using assms
  by (simp add: reshape_def prod_list_snoc_last [OF assms(1)] infer_empty_signal)

text \<open>
  C3, as the code has it. For an input tensor with at least one axis, a transform with
  \<open>vectorize\<close> set and \<open>average\<close> unset raises the \<open>ValueError\<close> of the
  incompatible options when the last axis of the input is not empty; the reshaping of the
  input comes before that check, and on an empty last axis it is the reshaping that raises.
  Either way nothing of the cascade runs: the result does not depend on the collaborators.
\<close>

theorem forward_rejects_vectorize_without_average:
  assumes "shape x \<noteq> []" and "self_vectorize self" and "\<not> self_average self"
  shows "forward ev self x =
     (if last (shape x) = 0 then Inl (RuntimeError ambiguous_reshape)
      else Inl (ValueError incompatible_options))"
proof (cases "last (shape x) = 0")
  case True
  then have "reshape x [- 1, 1, 0] = Inl (RuntimeError ambiguous_reshape)"
    using reshape_empty_signal [OF assms(1)] by simp
  with True assms show ?thesis
    by (simp add: forward_def Let_def)
next
  case False
  with assms show ?thesis
    by (simp add: forward_def Let_def reshape_signal incompatible_options_def)
qed

lemma forward_raises: "\<exists>e. forward ev self x = Inl e"
  by (auto simp: forward_def Let_def on_success_def resolve_pad resolve_scattering1d
      split: sum.splits prod.splits)


lemmas sample_object_defs =
  sample_object_def sample_built_def sample_args_def unaveraged_object_def
  init_attrs.defs built_attrs.defs scattering1d_torch.defs

theorem forward_rejects_vectorize_without_average_witness:
  "shape sample_signal \<noteq> [] \<and> self_vectorize unaveraged_object \<and>
   \<not> self_average unaveraged_object \<and> last (shape sample_signal) \<noteq> 0 \<and>
   forward sample_env unaveraged_object sample_signal = Inl (ValueError incompatible_options)"
proof -
  have 1: "shape sample_signal \<noteq> []" by (simp add: sample_signal_def)
  have 2: "self_vectorize unaveraged_object" by (simp add: sample_object_defs)
  have 3: "\<not> self_average unaveraged_object" by (simp add: sample_object_defs)
  have 4: "last (shape sample_signal) \<noteq> 0" by (simp add: sample_signal_def)
  show ?thesis
    using forward_rejects_vectorize_without_average [OF 1 2 3, of sample_env] 1 2 3 4
    by simp
qed

text \<open>
  C3 as stated fails on a tensor whose only axis is empty: the exception is the
  \<open>RuntimeError\<close> of \<open>reshape\<close>, not a \<open>ValueError\<close>.
\<close>

theorem forward_on_empty_signal_raises_from_reshape:
  "1 \<le> length (shape empty_signal) \<and> self_vectorize unaveraged_object \<and>
   \<not> self_average unaveraged_object \<and>
   forward sample_env unaveraged_object empty_signal = Inl (RuntimeError ambiguous_reshape) \<and>
   (\<forall>msg. forward sample_env unaveraged_object empty_signal \<noteq> Inl (ValueError msg))"
proof -
  have "forward sample_env unaveraged_object empty_signal = Inl (RuntimeError ambiguous_reshape)"
    by (simp add: forward_def empty_signal_def Let_def reshape_def infer_empty_signal)
  then show ?thesis
    by (simp add: empty_signal_def sample_object_defs)
qed

lemma restore_dict_present:
  "(\<And>k. i \<le> k \<Longrightarrow> k < i + int_keys d \<Longrightarrow> bd k \<noteq> None) \<Longrightarrow>
   \<exists>d'. restore_dict bd d i = Inr (d', i + int_keys d)"
proof (induction d arbitrary: i rule: int_keys.induct)
  case 1
  show ?case by simp
next
  case (2 k v rest)
  from 2 obtain d' where "restore_dict bd rest i = Inr (d', i + int_keys rest)"
    by fastforce
  then show ?case by simp
next
  case (3 k v rest)
  have here: "bd i \<noteq> None" using 3(2) [of i] by simp
  have "\<exists>d'. restore_dict bd rest (i + 1) = Inr (d', (i + 1) + int_keys rest)"
    by (rule 3(1)) (use 3(2) in auto)
  then obtain d' where "restore_dict bd rest (i + 1) = Inr (d', (i + 1) + int_keys rest)" ..
  with here show ?case by auto
qed

lemma restore_psi1_dict_without_key:
  "int_keys d = 0 \<Longrightarrow> restore_psi1_dict bd d i = Inr i"
  by (induction d rule: int_keys.induct) simp_all

lemma restore_psi1_dict_with_key:
  "0 < int_keys d \<Longrightarrow> bd i \<noteq> None \<Longrightarrow>
   restore_psi1_dict bd d i = Inl (AttributeError ''psi_f'')"
  by (induction d rule: int_keys.induct) (auto simp: lookup_psi_f)

lemma restore_psi1_with_key:
  "list_ex (\<lambda>d. 0 < int_keys d) ds \<Longrightarrow> bd i \<noteq> None \<Longrightarrow>
   restore_psi1 bd ds i = Inl (AttributeError ''psi_f'')"
proof (induction ds)
  case Nil
  then show ?case by simp
next
  case (Cons d ds)
  show ?case
  proof (cases "int_keys d = 0")
    case True
    with Cons show ?thesis by (simp add: restore_psi1_dict_without_key)
  next
    case False
    with Cons.prems show ?thesis by (simp add: restore_psi1_dict_with_key)
  qed
qed

lemma detailed_size_returns:
  "calibrate J Q = Inr cal \<Longrightarrow> parallel cal \<Longrightarrow>
   \<exists>sz. precompute_size_scattering calibrate J Q mo True = Inr sz"
  by (simp add: precompute_size_scattering_def size_order2_closed Let_def)

text \<open>
  C9, as the code has it. When \<open>psi1_f\<close> holds a filter with a key that is not a
  string, \<open>forward\<close> never returns: every run ends in an exception before the cascade
  is called. The exception is the \<open>AttributeError\<close> of \<open>self.psi_f\<close> whenever the
  checks before the loops pass (an input with a non-empty last axis, no \<open>vectorize\<close>
  without \<open>average\<close>, a size that is computed) and the buffers read up to that
  assignment are registered.
\<close>

theorem forward_stops_at_psi_f:
  assumes "list_ex (\<lambda>d. 0 < int_keys d) (self_psi1_f self)"
  shows "(\<exists>e. forward ev self x = Inl e) \<and>
     (shape x \<noteq> [] \<and> last (shape x) \<noteq> 0 \<and>
      (self_vectorize self \<longrightarrow> self_average self \<and>
         (\<exists>sz. precompute_size_scattering (ext_calibrate ev) (self_J self) (self_Q self)
                  (self_max_order self) True = Inr sz)) \<and>
      (\<forall>k \<le> int_keys (self_phi_f self). buffers self k \<noteq> None)
      \<longrightarrow> forward ev self x = Inl (AttributeError ''psi_f''))"
proof (intro conjI impI)
  show "\<exists>e. forward ev self x = Inl e" by (rule forward_raises)
next
  assume a: "shape x \<noteq> [] \<and> last (shape x) \<noteq> 0 \<and>
      (self_vectorize self \<longrightarrow> self_average self \<and>
         (\<exists>sz. precompute_size_scattering (ext_calibrate ev) (self_J self) (self_Q self)
                  (self_max_order self) True = Inr sz)) \<and>
      (\<forall>k \<le> int_keys (self_phi_f self). buffers self k \<noteq> None)"
  then have x: "shape x \<noteq> []" "last (shape x) \<noteq> 0" by simp_all
  from a obtain sz where sz:
    "(if self_vectorize self then
        if \<not> self_average self then Inl (ValueError
          ''Options average=False and vectorize=True are mutually incompatible. Please set vectorize to False.'')
        else precompute_size_scattering (ext_calibrate ev) (self_J self) (self_Q self)
               (self_max_order self) True
      else Inr (Total 0)) = Inr sz"
    by (cases "self_vectorize self") auto
  from a have "\<exists>d'. restore_dict (buffers self) (self_phi_f self) 0 =
      Inr (d', 0 + int_keys (self_phi_f self))"
    by (intro restore_dict_present) simp
  then obtain d' where phi:
    "restore_dict (buffers self) (self_phi_f self) 0 = Inr (d', int_keys (self_phi_f self))"
    by auto
  from a have "buffers self (int_keys (self_phi_f self)) \<noteq> None" by simp
  then have psi: "restore_psi1 (buffers self) (self_psi1_f self) (int_keys (self_phi_f self)) =
      Inl (AttributeError ''psi_f'')"
    by (rule restore_psi1_with_key [OF assms])
  show "forward ev self x = Inl (AttributeError ''psi_f'')"
    using x by (simp add: forward_def Let_def reshape_signal sz phi psi)
qed


lemma sample_psi1_has_key: "list_ex (\<lambda>d. 0 < int_keys d) (self_psi1_f sample_object)"
  by (simp add: sample_object_defs)

lemma sample_buffers_present:
  "\<forall>k \<le> int_keys (self_phi_f sample_object). buffers sample_object k \<noteq> None"
  by (simp add: sample_object_defs le_Suc_eq)

theorem forward_stops_at_psi_f_witness:
  "list_ex (\<lambda>d. 0 < int_keys d) (self_psi1_f sample_object) \<and>
   shape sample_signal \<noteq> [] \<and> last (shape sample_signal) \<noteq> 0 \<and>
   self_vectorize sample_object \<and> self_average sample_object \<and>
   (\<exists>sz. precompute_size_scattering (ext_calibrate sample_env) (self_J sample_object)
           (self_Q sample_object) (self_max_order sample_object) True = Inr sz) \<and>
   forward sample_env sample_object sample_signal = Inl (AttributeError ''psi_f'')"
proof -
  have size: "\<exists>sz. precompute_size_scattering (ext_calibrate sample_env) (self_J sample_object)
           (self_Q sample_object) (self_max_order sample_object) True = Inr sz"
    using detailed_size_returns
      [of sample_calibrate 3 1 sample_calibration 2, OF sample_calibrate_returns sample_parallel]
    by (simp add: sample_env_def sample_object_defs)
  have flags: "self_vectorize sample_object" "self_average sample_object"
    by (simp_all add: sample_object_defs)
  have input: "shape sample_signal \<noteq> []" "last (shape sample_signal) \<noteq> 0"
    by (simp_all add: sample_signal_def)
  show ?thesis
    using forward_stops_at_psi_f [OF sample_psi1_has_key, of sample_env sample_signal]
      sample_psi1_has_key sample_buffers_present size flags input
    by blast
qed

text \<open>
  C9 as stated fails on a created transform with \<open>vectorize\<close> set and \<open>average\<close>
  unset: \<open>forward\<close> raises the \<open>ValueError\<close> of the options, before its loops.
\<close>

theorem forward_of_unaveraged_object_raises_value_error:
  "create_and_register_filters sample_env (sample_built\<lparr>self_average := False\<rparr>) =
     Inr unaveraged_object \<and>
   list_ex (\<lambda>d. 0 < int_keys d) (self_psi1_f unaveraged_object) \<and>
   forward sample_env unaveraged_object sample_signal = Inl (ValueError incompatible_options) \<and>
   forward sample_env unaveraged_object sample_signal \<noteq> Inl (AttributeError ''psi_f'')"
proof -
  have made: "create_and_register_filters sample_env (sample_built\<lparr>self_average := False\<rparr>) =
     Inr unaveraged_object"
    by (simp add: create_and_register_filters_def sample_env_def sample_object_defs
      sample_phi_def sample_psi1_def sample_psi2_def from_numpy_repeat_def eval_nat_numeral)
  have key: "list_ex (\<lambda>d. 0 < int_keys d) (self_psi1_f unaveraged_object)"
    by (simp add: sample_object_defs)
  have "forward sample_env unaveraged_object sample_signal = Inl (ValueError incompatible_options)"
    by (simp add: forward_def Let_def sample_signal_def reshape_def infer_size_def
      incompatible_options_def sample_object_defs)
  with made key show ?thesis by simp
qed

lemma register_dict_buffers:
  "register_dict d (bufs, i) = Inr (d', bufs', i') \<Longrightarrow> (\<And>k. k < i \<Longrightarrow> bufs k \<noteq> None) \<Longrightarrow>
   i' = i + int_keys d \<and> int_keys d' = int_keys d \<and> (\<forall>k < i'. bufs' k \<noteq> None)"
proof (induction d arbitrary: bufs i d' rule: int_keys.induct)
  case 1
  then show ?case by auto
next
  case (2 k v rest)
  from 2(2) obtain d0 where r: "register_dict rest (bufs, i) = Inr (d0, bufs', i')"
    and d': "d' = (StrKey k, v) # d0"
    by (auto simp: on_success_def split: sum.splits prod.splits)
  from 2(1) [OF r 2(3)] d' show ?case by simp
next
  case (3 k v rest)
  from 3(2) obtain t d0 where t: "from_numpy_repeat v = Inr t"
    and r: "register_dict rest (bufs(i \<mapsto> t), i + 1) = Inr (d0, bufs', i')"
    and d': "d' = (IntKey k, t) # d0"
    by (auto simp: on_success_def split: sum.splits prod.splits)
  have "\<And>j. j < i + 1 \<Longrightarrow> (bufs(i \<mapsto> t)) j \<noteq> None"
    using 3(3) by (auto simp: less_Suc_eq)
  from 3(1) [OF r this] d' show ?case by simp
qed

lemma register_dicts_buffers:
  "register_dicts ds (bufs, i) = Inr (ds', bufs', i') \<Longrightarrow> (\<And>k. k < i \<Longrightarrow> bufs k \<noteq> None) \<Longrightarrow>
   i' = i + sum_list (map int_keys ds) \<and> map int_keys ds' = map int_keys ds \<and>
   (\<forall>k < i'. bufs' k \<noteq> None)"
proof (induction ds arbitrary: bufs i ds')
  case Nil
  then show ?case by auto
next
  case (Cons d ds)
  from Cons.prems(1) obtain d0 b0 i0 ds0 where
    1: "register_dict d (bufs, i) = Inr (d0, b0, i0)" and
    2: "register_dicts ds (b0, i0) = Inr (ds0, bufs', i')" and
    3: "ds' = d0 # ds0"
    by (auto simp: on_success_def split: sum.splits prod.splits)
  from register_dict_buffers [OF 1 Cons.prems(2)]
  have a: "i0 = i + int_keys d" "int_keys d0 = int_keys d" "\<And>k. k < i0 \<Longrightarrow> b0 k \<noteq> None"
    by auto
  from Cons.IH [OF 2 a(3)] a 3 show ?case by simp
qed

lemma some_key_counts:
  "list_ex (\<lambda>d. 0 < int_keys d) ds \<Longrightarrow> 0 < sum_list (map int_keys ds)"
  by (induction ds) auto

text \<open>
  An object that \<open>create_and_register_filters\<close> has made holds the buffers that the
  loops of \<open>forward\<close> read up to the first entry of \<open>psi1_f\<close>.
\<close>

lemma created_object_has_its_buffers:
  assumes "create_and_register_filters ev b = Inr obj"
    and "list_ex (\<lambda>d. 0 < int_keys d) (self_psi1_f obj)"
  shows "\<forall>k \<le> int_keys (self_phi_f obj). buffers obj k \<noteq> None"
proof -
  from assms(1) obtain phi psi1 psi2 t phi' b0 i0 psi1' b1 i1 psi2' b2 i2 where
    0: "register_dict phi (Map.empty, 0) = Inr (phi', b0, i0)" and
    1: "register_dicts psi1 (b0, i0) = Inr (psi1', b1, i1)" and
    2: "register_dicts psi2 (b1, i1) = Inr (psi2', b2, i2)" and
    obj: "obj = built_attrs.extend b (scattering1d_torch.fields psi1' psi2' phi' b2)"
    by (auto simp: create_and_register_filters_def on_success_def split: sum.splits prod.splits)
  have f: "self_phi_f obj = phi'" "self_psi1_f obj = psi1'" "buffers obj = b2"
    by (simp_all add: obj built_attrs.defs scattering1d_torch.defs)
  from register_dict_buffers [OF 0]
  have a: "i0 = int_keys phi" "int_keys phi' = int_keys phi" "\<And>k. k < i0 \<Longrightarrow> b0 k \<noteq> None"
    by auto
  from register_dicts_buffers [OF 1 a(3)]
  have b: "i1 = i0 + sum_list (map int_keys psi1)" "map int_keys psi1' = map int_keys psi1"
    "\<And>k. k < i1 \<Longrightarrow> b1 k \<noteq> None"
    by auto
  from register_dicts_buffers [OF 2 b(3)]
  have c: "i2 = i1 + sum_list (map int_keys psi2)" "\<And>k. k < i2 \<Longrightarrow> b2 k \<noteq> None"
    by auto
  from assms(2) have "0 < sum_list (map int_keys psi1')"
    by (simp add: f some_key_counts)
  then have "int_keys phi' < i2"
    using a b c by simp
  then show ?thesis
    using c(2) by (auto simp: f)
qed

section \<open>The numpy backend\<close>

lemma ravel4: "ravel [B, C, M, N] [b, c, m, n] = ((b * C + c) * M + m) * N + n"
  by (simp add: ravel_def)

lemma ravel6:
  "ravel [B, C, P, I, Q, J] [b, c, p, i, q, j] = ((((b * C + c) * P + p) * I + i) * Q + q) * J + j"
  by (simp add: ravel_def)

lemma step_bound: "(a::nat) < A \<Longrightarrow> m < M \<Longrightarrow> a * M + m < A * M"
proof -
  assume "a < A" "m < M"
  then have "a * M + m < a * M + M" by simp
  also have "\<dots> = (a + 1) * M" by simp
  also have "\<dots> \<le> A * M" using \<open>a < A\<close> by (intro mult_le_mono1) simp
  finally show ?thesis .
qed

lemma ravel4_bound:
  "b < B \<Longrightarrow> c < C \<Longrightarrow> m < M \<Longrightarrow> n < N \<Longrightarrow> ravel [B, C, M, N] [b, c, m, n] < B * C * M * N"
  by (simp add: ravel4 step_bound)

lemma div_step: "m < M \<Longrightarrow> (a * M + m) div M = (a::nat)"
  by simp

lemma mod_step: "m < M \<Longrightarrow> (a * M + m) mod M = (m::nat)"
  by simp

lemma unravel_ravel4:
  assumes "b < B" "c < C" "m < M" "n < N"
  shows "unravel [B, C, M, N] (ravel [B, C, M, N] [b, c, m, n]) = [b, c, m, n]"
proof -
  let ?f = "((b * C + c) * M + m) * N + n"
  have 1: "?f mod N = n" "?f div N = (b * C + c) * M + m"
    using assms by (simp_all only: div_step mod_step)
  have e2: "M * N = N * M" by (rule mult.commute)
  have 2: "?f div (M * N) = b * C + c"
    unfolding e2 div_mult2_eq 1 using assms by (simp only: div_step)
  have e3: "C * (M * N) = (M * N) * C" by (rule mult.commute)
  have 3: "?f div (C * (M * N)) = b"
    unfolding e3 div_mult2_eq [of _ "M * N" C] 2 using assms by (simp only: div_step)
  have 4: "(b * C + c) mod C = c" "((b * C + c) * M + m) mod M = m"
    using assms by (simp_all only: mod_step)
  show ?thesis
    using assms by (simp add: ravel4 1 2 3 4)
qed


lemma SubsampleFourier_result:
  fixes x :: "'a::field array"
  assumes sh: "shape x = [B, C, M, N]"
    and k: "0 < k" "k dvd M" "k dvd N" and pos: "0 < M" "0 < N"
  shows "SubsampleFourier x (int k) =
     Inr \<lparr>shape = [B, C, M div k, N div k],
          data = map (\<lambda>f.
              let u = unravel [B, C, M div k, N div k] f in
              sum_list (map (\<lambda>p. sum_list (map (\<lambda>q.
                  data x ! ravel [B, C, k, M div k, k, N div k] [u ! 0, u ! 1, p, u ! 2, q, u ! 3])
                [0..<k])) [0..<k]) / of_nat (k * k))
            [0..<B * C * (M div k) * (N div k)]\<rparr>"
proof -
  have M: "k * (M div k) = M" and N: "k * (N div k) = N"
    using k by simp_all
  have M': "0 < M div k"
    using M pos by (cases "M div k = 0") auto
  have N': "0 < N div k"
    using N pos by (cases "N div k = 0") auto
  have "k * (M div k) div (M div k) = k" "k * (N div k) div (N div k) = k"
    using M' N' by simp_all
  then have rM: "M div (M div k) = k" and rN: "N div (N div k) = k"
    by (simp_all only: M N)
  have d1: "int M div int k = int (M div k)" "int N div int k = int (N div k)"
    by (simp_all add: zdiv_int)
  have d2: "int M div int (M div k) = int k" "int N div int (N div k) = int k"
    using rM rN by (simp_all add: zdiv_int [symmetric])
  have size: "B * C * k * (M div k) * k * (N div k) = B * C * M * N"
  proof -
    have "B * C * k * (M div k) * k * (N div k) = B * C * (k * (M div k)) * (k * (N div k))"
      by (simp add: mult.assoc)
    then show ?thesis by (simp only: M N)
  qed
  have resh: "np_reshape x [B, C, k, M div k, k, N div k] =
      Inr (x\<lparr>shape := [B, C, k, M div k, k, N div k]\<rparr>)"
    using size by (simp add: np_reshape_def sh mult.assoc)
  show ?thesis
    using M' N' k(1)
    by (simp add: SubsampleFourier_def sh py_index_def floordiv_def d1 d2 resh mean_axes_2_4_def)
qed


lemma ravel6_as_ravel4:
  "ravel [B, C, k, m', k, n'] [b, c, p, i, q, j] =
   ravel [B, C, k * m', k * n'] [b, c, i + p * m', j + q * n']"
  by (simp add: ravel4 ravel6 algebra_simps)

lemma sum_list_upt_sum: "sum_list (map f [0..<k]) = (\<Sum>p<k. f p)"
  by (simp add: interv_sum_list_conv_sum_set_nat atLeast0LessThan)

lemma SubsampleFourier_entries:
  fixes x :: "'a::field array"
  assumes sh: "shape x = [B, C, M, N]"
    and k: "0 < k" "k dvd M" "k dvd N" and pos: "0 < M" "0 < N"
  shows "\<exists>out. SubsampleFourier x (int k) = Inr out \<and>
     shape out = [B, C, M div k, N div k] \<and> well_formed out \<and>
     (\<forall>b<B. \<forall>c<C. \<forall>i<M div k. \<forall>j<N div k.
        entry out [b, c, i, j] =
          (\<Sum>p<k. \<Sum>q<k. entry x [b, c, i + p * (M div k), j + q * (N div k)]) /
            of_nat (k * k))"
proof -
  let ?M' = "M div k" and ?N' = "N div k"
  let ?out = "\<lparr>shape = [B, C, ?M', ?N'],
          data = map (\<lambda>f.
              let u = unravel [B, C, ?M', ?N'] f in
              sum_list (map (\<lambda>p. sum_list (map (\<lambda>q.
                  data x ! ravel [B, C, k, ?M', k, ?N'] [u ! 0, u ! 1, p, u ! 2, q, u ! 3])
                [0..<k])) [0..<k]) / of_nat (k * k))
            [0..<B * C * ?M' * ?N']\<rparr> :: 'a array"
  have res: "SubsampleFourier x (int k) = Inr ?out"
    by (rule SubsampleFourier_result [OF sh k pos])
  have M: "k * ?M' = M" and N: "k * ?N' = N"
    using k by simp_all
  have wf: "well_formed ?out"
    by (simp add: well_formed_def mult.assoc)
  have ent: "entry ?out [b, c, i, j] =
          (\<Sum>p<k. \<Sum>q<k. entry x [b, c, i + p * ?M', j + q * ?N']) / of_nat (k * k)"
    if "b < B" "c < C" "i < ?M'" "j < ?N'" for b c i j
  proof -
    have lt: "ravel [B, C, ?M', ?N'] [b, c, i, j] < B * C * ?M' * ?N'"
      using that by (rule ravel4_bound)
    have un: "unravel [B, C, ?M', ?N'] (ravel [B, C, ?M', ?N'] [b, c, i, j]) = [b, c, i, j]"
      using that by (rule unravel_ravel4)
    have ix: "ravel [B, C, k, ?M', k, ?N'] [b, c, p, i, q, j] =
              ravel [B, C, M, N] [b, c, i + p * ?M', j + q * ?N']" for p q
      using ravel6_as_ravel4 [of B C k ?M' ?N' b c p i q j] by (simp only: M N)
    show ?thesis
      using lt
      by (simp add: entry_def un ix sh sum_list_upt_sum Let_def del: upt_Suc unravel.simps)
  qed
  show ?thesis
    using res wf ent by (intro exI [of _ ?out]) simp
qed


lemma axes_checked:
  assumes "fft_axes_check x = Inr (M, N)"
  shows "2 \<le> length (shape x)" "N = last (shape x)" "M = last (butlast (shape x))"
    "0 < M" "0 < N"
  using assms by (auto simp: fft_axes_check_def Let_def split: if_splits)

lemma shape_from_end_checked:
  assumes "fft_axes_check x = Inr (M, N)"
  shows "shape_from_end x 0 = Inr N" "shape_from_end x (Suc 0) = Inr M"
proof -
  note a = axes_checked [OF assms]
  from a(1) have ne: "shape x \<noteq> []" "butlast (shape x) \<noteq> []"
    by (auto simp: Suc_le_eq numeral_2_eq_2 length_greater_0_conv [symmetric]
        simp del: length_greater_0_conv)
  show "shape_from_end x 0 = Inr N"
    using a(1,2) ne by (simp add: shape_from_end_def rev_nth last_conv_nth)
  show "shape_from_end x (Suc 0) = Inr M"
    using a(1,3) ne
    by (simp add: shape_from_end_def rev_nth last_conv_nth nth_butlast numeral_2_eq_2)
qed

lemma fft_axes_check_error:
  "fft_axes_check x \<noteq> Inl (RuntimeError msg)"
  by (simp add: fft_axes_check_def Let_def)

lemma np_ifft2_error: "np_ifft2 x \<noteq> Inl (RuntimeError msg)"
  by (auto simp: np_ifft2_def on_success_def fft_axes_check_def Let_def split: sum.splits)

lemma np_fft2_error: "np_fft2 x \<noteq> Inl (RuntimeError msg)"
  by (auto simp: np_fft2_def on_success_def fft_axes_check_def Let_def split: sum.splits)

lemma shape_from_end_error: "shape_from_end x i \<noteq> Inl (RuntimeError msg)"
  by (simp add: shape_from_end_def)

lemma fft_runtime_error_iff:
  "(\<exists>msg. fft x direction inverse_flag = Inl (RuntimeError msg)) \<longleftrightarrow>
     direction = ''C2R'' \<and> \<not> inverse_flag"
  using np_ifft2_error [of x] np_fft2_error [of x] shape_from_end_error [of x]
  by (auto simp: fft_def on_success_def split: sum.splits)

lemma scaled_back:
  fixes g :: "nat \<Rightarrow> complex"
  assumes "0 < M" "0 < N"
  shows "map (\<lambda>z. z * of_nat M) (map (\<lambda>z. z * of_nat N)
           (map (\<lambda>f. g f / of_nat (M * N)) fs)) = map g (fs :: nat list)"
    (is "?l = _")
proof -
  have "(g f / of_nat (M * N)) * of_nat N * of_nat M = (g f :: complex)" for f
    using assms by (simp add: field_simps)
  then show ?thesis by (simp add: o_def)
qed

lemma fft_inverse_complex:
  assumes "fft_axes_check x = Inr (M, N)"
  shows "fft x ''C2C'' True = Inr (ComplexArray (unnormalized_ifft2 x))"
  using axes_checked(4,5) [OF assms]
  by (simp add: fft_def np_ifft2_def assms shape_from_end_checked [OF assms] times_int_def
      unnormalized_ifft2_def scaled_back)

lemma fft_inverse_real:
  assumes "fft_axes_check x = Inr (M, N)"
  shows "fft x ''C2R'' True = Inr (RealArray (np_real (unnormalized_ifft2 x)))"
proof -
  have "Re (g f / of_nat (M * N)) * of_nat N * of_nat M = Re (g f)" for g :: "nat \<Rightarrow> complex" and f
    using axes_checked(4,5) [OF assms] by (simp add: field_simps)
  then show ?thesis
    by (simp add: fft_def np_ifft2_def assms shape_from_end_checked [OF assms] times_int_def
      unnormalized_ifft2_def np_real_def o_def)
qed


section \<open>The round trip of the transforms\<close>

lemma roots_of_unity_sum:
  fixes d :: int
  assumes M: "0 < M" and d: "\<bar>d\<bar> < int M"
  shows "(\<Sum>m<M. cis (2 * pi * (real m * real_of_int d / real M))) =
         (if d = 0 then of_nat M else 0)"
proof (cases "d = 0")
  case True
  then show ?thesis by simp
next
  case False
  let ?a = "2 * pi * (real_of_int d / real M)"
  let ?z = "cis ?a"
  have pow: "cis (2 * pi * (real m * real_of_int d / real M)) = ?z ^ m" for m
    by (simp add: DeMoivre algebra_simps)
  have "?z \<noteq> 1"
  proof
    assume "?z = 1"
    then have "cos ?a = 1" by (simp add: complex_eq_iff)
    then obtain n :: int where "?a = real_of_int n * 2 * pi"
      by (auto simp: cos_one_2pi_int)
    then have "2 * pi * (real_of_int d / real M) = 2 * pi * real_of_int n"
      by (simp add: mult.commute mult.left_commute)
    then have "real_of_int d / real M = real_of_int n"
      by (simp only: mult_cancel_left) simp
    then have "real_of_int d = real_of_int (n * int M)" using M by (simp add: field_simps)
    then have eq: "d = n * int M" by (simp only: of_int_eq_iff)
    with False have "n \<noteq> 0" by auto
    then have "\<bar>n\<bar> \<ge> 1" by simp
    then have "\<bar>n * int M\<bar> \<ge> int M"
      by (simp add: abs_mult mult_le_cancel_right1)
    with d eq show False by simp
  qed
  moreover have "?z ^ M = 1"
  proof -
    have "?z ^ M = cis (2 * pi * real_of_int d)"
      using M by (simp add: DeMoivre)
    then show ?thesis by simp
  qed
  ultimately have zero: "(\<Sum>m<M. ?z ^ m) = 0"
    using geometric_sum [of ?z M] by (simp add: atLeast0LessThan)
  have "(\<Sum>m<M. cis (2 * pi * (real m * real_of_int d / real M))) = (\<Sum>m<M. ?z ^ m)"
    by (simp only: pow)
  also note zero
  finally show ?thesis using False by (simp only: if_False)
qed


lemma dft2_roundtrip_core:
  fixes a :: "nat \<Rightarrow> nat \<Rightarrow> complex"
  assumes M: "0 < M" and N: "0 < N" and u: "u < M" and v: "v < N"
  shows "(\<Sum>m<M. \<Sum>n<N.
            (\<Sum>m'<M. \<Sum>n'<N. a m' n' *
               cis (- 1 * (2 * pi) * (real m * real m' / real M + real n * real n' / real N))) *
            cis (1 * (2 * pi) * (real u * real m / real M + real v * real n / real N))) =
         a u v * of_nat (M * N)"
proof -
  define E1 where "E1 m m' = cis (2 * pi * (real m * real_of_int (int u - int m') / real M))"
    for m m'
  define E2 where "E2 n n' = cis (2 * pi * (real n * real_of_int (int v - int n') / real N))"
    for n n'
  have split: "cis (- 1 * (2 * pi) * (real m * real m' / real M + real n * real n' / real N)) *
      cis (1 * (2 * pi) * (real u * real m / real M + real v * real n / real N)) =
      E1 m m' * E2 n n'" for m m' n n'
  proof -
    have "- 1 * (2 * pi) * (real m * real m' / real M + real n * real n' / real N) +
        1 * (2 * pi) * (real u * real m / real M + real v * real n / real N) =
        2 * pi * (real m * real_of_int (int u - int m') / real M) +
        2 * pi * (real n * real_of_int (int v - int n') / real N)"
      by (simp add: algebra_simps diff_divide_distrib)
    then show ?thesis
      by (simp only: E1_def E2_def cis_mult)
  qed
  have S1: "(\<Sum>m<M. E1 m m') = (if u = m' then of_nat M else 0)" if "m' < M" for m'
  proof -
    have "\<bar>int u - int m'\<bar> < int M" using u that by simp
    from roots_of_unity_sum [OF M this] show ?thesis
      by (simp add: E1_def)
  qed
  have S2: "(\<Sum>n<N. E2 n n') = (if v = n' then of_nat N else 0)" if "n' < N" for n'
  proof -
    have "\<bar>int v - int n'\<bar> < int N" using v that by simp
    from roots_of_unity_sum [OF N this] show ?thesis
      by (simp add: E2_def)
  qed
  let ?t = "\<lambda>m n m' n'. a m' n' * (E1 m m' * E2 n n')"
  have "(\<Sum>m<M. \<Sum>n<N.
            (\<Sum>m'<M. \<Sum>n'<N. a m' n' *
               cis (- 1 * (2 * pi) * (real m * real m' / real M + real n * real n' / real N))) *
            cis (1 * (2 * pi) * (real u * real m / real M + real v * real n / real N))) =
        (\<Sum>m<M. \<Sum>n<N. \<Sum>m'<M. \<Sum>n'<N. ?t m n m' n')"
    unfolding sum_distrib_right
  proof (intro sum.cong refl)
    fix m n m' n'
    show "a m' n' *
        cis (- 1 * (2 * pi) * (real m * real m' / real M + real n * real n' / real N)) *
        cis (1 * (2 * pi) * (real u * real m / real M + real v * real n / real N)) =
        a m' n' * (E1 m m' * E2 n n')"
      using split [of m m' n n'] by (simp only: mult.assoc [of "a m' n'"])
  qed
  also have "\<dots> = (\<Sum>m<M. \<Sum>m'<M. \<Sum>n<N. \<Sum>n'<N. ?t m n m' n')"
    by (rule sum.cong [OF refl]) (rule sum.swap)
  also have "\<dots> = (\<Sum>m'<M. \<Sum>m<M. \<Sum>n<N. \<Sum>n'<N. ?t m n m' n')"
    by (rule sum.swap)
  also have "\<dots> = (\<Sum>m'<M. \<Sum>m<M. \<Sum>n'<N. \<Sum>n<N. ?t m n m' n')"
    by (rule sum.cong [OF refl], rule sum.cong [OF refl], rule sum.swap)
  also have "\<dots> = (\<Sum>m'<M. \<Sum>n'<N. \<Sum>m<M. \<Sum>n<N. ?t m n m' n')"
    by (rule sum.cong [OF refl]) (rule sum.swap)
  also have "\<dots> = (\<Sum>m'<M. \<Sum>n'<N. a m' n' * ((\<Sum>m<M. E1 m m') * (\<Sum>n<N. E2 n n')))"
    unfolding sum_product by (simp only: sum_distrib_left)
  also have "\<dots> = (\<Sum>m'<M. \<Sum>n'<N.
        a m' n' * ((if u = m' then of_nat M else 0) * (if v = n' then of_nat N else 0)))"
    by (intro sum.cong refl) (simp add: S1 S2)
  also have "\<dots> = (\<Sum>m'<M. if u = m' then a m' v * (of_nat M * of_nat N) else 0)"
    using v by (intro sum.cong refl) (simp add: if_distrib [of "\<lambda>z. _ * z"] cong: if_cong)
  also have "\<dots> = a u v * (of_nat M * of_nat N)"
    using u by simp
  finally show ?thesis by simp
qed


lemma cis_minus_pi: "cis (- pi) = - 1"
  by (simp add: cis_cnj [symmetric])

lemma sample_row_forward:
  "fft sample_row ''C2C'' False = Inr (ComplexArray sample_row_transform)"
  by (simp add: fft_def np_fft2_def fft_axes_check_def sample_row_def sample_row_transform_def
      dft2_entry_def numeral_2_eq_2 cis_minus_pi)

lemma sample_row_back:
  "fft sample_row_transform ''C2C'' True = Inr (ComplexArray sample_row_doubled)"
  by (simp add: fft_def np_ifft2_def fft_axes_check_def sample_row_doubled_def
      sample_row_transform_def shape_from_end_def times_int_def
      dft2_entry_def numeral_2_eq_2)


lemma size_of_checked:
  assumes "fft_axes_check x = Inr (M, N)"
  shows "prod_list (shape x) = prod_list (butlast (butlast (shape x))) * M * N"
proof -
  have a: "2 \<le> length (shape x)" "N = last (shape x)" "M = last (butlast (shape x))"
    using assms by (auto simp: fft_axes_check_def Let_def split: if_splits)
  then have ne: "shape x \<noteq> []" "butlast (shape x) \<noteq> []"
    by (auto simp: Suc_le_eq numeral_2_eq_2 length_greater_0_conv [symmetric]
        simp del: length_greater_0_conv)
  show ?thesis
    using prod_list_snoc_last [OF ne(1)] prod_list_snoc_last [OF ne(2)] a by simp
qed

lemma flat_parts:
  assumes "m < M" "n < (N::nat)"
  shows "(l * (M * N) + m * N + n) div (M * N) = l"
    "((l * (M * N) + m * N + n) div N) mod M = m"
    "(l * (M * N) + m * N + n) mod N = n"
proof -
  have e: "l * (M * N) + m * N + n = (l * M + m) * N + n"
    by (simp add: algebra_simps)
  have d: "((l * M + m) * N + n) div N = l * M + m"
    using assms by simp
  show "(l * (M * N) + m * N + n) mod N = n"
    using assms by (simp only: e) simp
  show "((l * (M * N) + m * N + n) div N) mod M = m"
    using assms by (simp only: e d) simp
  have c: "M * N = N * M" by (rule mult.commute)
  have "(l * (M * N) + m * N + n) div (M * N) = ((l * M + m) * N + n) div (M * N)"
    by (simp only: e)
  also have "\<dots> = ((l * M + m) * N + n) div (N * M)"
    by (rule arg_cong [OF c])
  also have "\<dots> = ((l * M + m) * N + n) div N div M"
    by (rule div_mult2_eq)
  also have "\<dots> = l"
    using assms by (simp only: d) simp
  finally show "(l * (M * N) + m * N + n) div (M * N) = l" .
qed

lemma flat_whole:
  "(f::nat) = f div (M * N) * (M * N) + (f div N) mod M * N + f mod N"
proof -
  have c: "M * N = N * M" by (rule mult.commute)
  have "f div (M * N) = f div (N * M)"
    by (rule arg_cong [OF c])
  then have 1: "f div (M * N) = f div N div M"
    by (simp only: div_mult2_eq)
  have 2: "f div N div M * M + f div N mod M = f div N"
    by simp
  have "f div N * N = (f div N div M * M + f div N mod M) * N"
    by (simp only: 2)
  also have "\<dots> = f div N div M * (M * N) + f div N mod M * N"
    by (simp only: distrib_right mult.assoc)
  finally have "f div N * N = f div (M * N) * (M * N) + f div N mod M * N"
    by (simp only: 1)
  moreover have "f = f div N * N + f mod N" by simp
  ultimately show ?thesis by (simp only:)
qed

lemma flat_bound:
  assumes "l < L" "m < M" "n < (N::nat)"
  shows "l * (M * N) + m * N + n < L * M * N"
proof -
  have "l * M + m < L * M"
    using assms(1,2) by (rule step_bound)
  then have "(l * M + m) * N + n < (L * M) * N"
    using assms(3) by (rule step_bound)
  then show ?thesis by (simp add: algebra_simps)
qed

lemma dft2_entry_sum:
  assumes "last (shape x) = N" "last (butlast (shape x)) = M"
  shows "dft2_entry sg x f =
     (\<Sum>m<M. \<Sum>n<N. data x ! (f div (M * N) * (M * N) + m * N + n) *
        cis (sg * (2 * pi) *
          (real ((f div N) mod M) * real m / real M + real (f mod N) * real n / real N)))"
  by (simp add: dft2_entry_def assms Let_def interv_sum_list_conv_sum_set_nat atLeast0LessThan
      del: upt_Suc)


lemma round_trip_entry:
  assumes wf: "well_formed x" and ck: "fft_axes_check x = Inr (M, N)"
    and f: "f < length (data x)"
  shows "dft2_entry 1 \<lparr>shape = shape x, data = map (dft2_entry (- 1) x) [0..<length (data x)]\<rparr> f
         = data x ! f * of_nat (M * N)"
proof -
  let ?X = "\<lparr>shape = shape x, data = map (dft2_entry (- 1) x) [0..<length (data x)]\<rparr>"
  let ?L = "prod_list (butlast (butlast (shape x)))"
  let ?l = "f div (M * N)" and ?u = "f div N mod M" and ?v = "f mod N"
  note ax = axes_checked [OF ck]
  have last: "last (shape x) = N" "last (butlast (shape x)) = M"
    using ax by simp_all
  have len: "length (data x) = ?L * M * N"
    using wf size_of_checked [OF ck] by (simp add: well_formed_def)
  have u: "?u < M" and v: "?v < N"
    using ax by simp_all
  have l: "?l < ?L"
    using f len by (simp add: less_mult_imp_div_less mult.assoc)
  let ?a = "\<lambda>m' n'. data x ! (?l * (M * N) + m' * N + n')"
  have entries: "data ?X ! (?l * (M * N) + m * N + n) =
      (\<Sum>m'<M. \<Sum>n'<N. ?a m' n' *
         cis (- 1 * (2 * pi) * (real m * real m' / real M + real n * real n' / real N)))"
    if "m < M" "n < N" for m n
  proof -
    have "?l * (M * N) + m * N + n < length (data x)"
      unfolding len using l that by (rule flat_bound)
    then have "data ?X ! (?l * (M * N) + m * N + n) =
        dft2_entry (- 1) x (?l * (M * N) + m * N + n)"
      by simp
    also have "\<dots> = (\<Sum>m'<M. \<Sum>n'<N. ?a m' n' *
         cis (- 1 * (2 * pi) * (real m * real m' / real M + real n * real n' / real N)))"
      by (simp only: dft2_entry_sum [OF last] flat_parts [OF that])
    finally show ?thesis .
  qed
  have "dft2_entry 1 ?X f =
      (\<Sum>m<M. \<Sum>n<N. data ?X ! (?l * (M * N) + m * N + n) *
         cis (1 * (2 * pi) * (real ?u * real m / real M + real ?v * real n / real N)))"
    by (rule dft2_entry_sum) (simp_all add: last)
  also have "\<dots> =
      (\<Sum>m<M. \<Sum>n<N.
         (\<Sum>m'<M. \<Sum>n'<N. ?a m' n' *
            cis (- 1 * (2 * pi) * (real m * real m' / real M + real n * real n' / real N))) *
         cis (1 * (2 * pi) * (real ?u * real m / real M + real ?v * real n / real N)))"
    by (intro sum.cong refl arg_cong2 [where f = "(*)"] entries) simp_all
  also have "\<dots> = ?a ?u ?v * of_nat (M * N)"
    by (rule dft2_roundtrip_core [OF ax(4) ax(5) u v])
  also have "?a ?u ?v = data x ! f"
    using flat_whole [of f M N] by simp
  finally show ?thesis .
qed

lemma fft_axes_check_shape:
  "shape y = shape x \<Longrightarrow> fft_axes_check y = fft_axes_check x"
  by (simp add: fft_axes_check_def)

lemma round_trip:
  assumes wf: "well_formed x" and ck: "fft_axes_check x = Inr (M, N)"
  shows "\<exists>X. fft x ''C2C'' False = Inr (ComplexArray X) \<and>
     fft X ''C2C'' True = Inr (ComplexArray (times_int x (M * N)))"
proof -
  let ?X = "\<lparr>shape = shape x, data = map (dft2_entry (- 1) x) [0..<length (data x)]\<rparr>"
  have fwd: "fft x ''C2C'' False = Inr (ComplexArray ?X)"
    by (simp add: fft_def np_fft2_def ck)
  have ckX: "fft_axes_check ?X = Inr (M, N)"
    using ck fft_axes_check_shape [of ?X x] by simp
  have "map (dft2_entry 1 ?X) [0..<length (data x)] =
      map (\<lambda>z. z * of_nat (M * N)) (data x)"
    by (rule nth_equalityI) (simp_all add: round_trip_entry [OF wf ck])
  then have "unnormalized_ifft2 ?X = times_int x (M * N)"
    by (simp add: unnormalized_ifft2_def times_int_def)
  with fft_inverse_complex [OF ckX] fwd show ?thesis
    by (intro exI [of _ ?X]) simp
qed

text \<open>
  C5, as the code has it. On a complex array of at least two axes whose last two axes, of
  lengths \<open>M\<close> and \<open>N\<close>, are not empty, the forward transform followed by the inverse
  one of the backend returns the array with every entry multiplied by \<open>M * N\<close>: the
  backend's inverse transform is numpy's multiplied by \<open>M * N\<close>, that is, unnormalized.
  Arithmetic is exact.
\<close>

theorem fft_round_trip_scales_by_the_size:
  assumes "well_formed x" and "2 \<le> length (shape x)"
    and "M = last (butlast (shape x))" and "N = last (shape x)" and "0 < M" and "0 < N"
  shows "\<exists>X. fft x ''C2C'' False = Inr (ComplexArray X) \<and>
     fft X ''C2C'' True = Inr (ComplexArray (times_int x (M * N)))"
proof -
  have "fft_axes_check x = Inr (M, N)"
    using assms by (simp add: fft_axes_check_def Let_def)
  with assms(1) show ?thesis by (rule round_trip)
qed

theorem fft_round_trip_witness:
  "well_formed sample_row \<and> 2 \<le> length (shape sample_row) \<and>
   last (butlast (shape sample_row)) = 1 \<and> last (shape sample_row) = 2 \<and>
   (\<exists>X. fft sample_row ''C2C'' False = Inr (ComplexArray X) \<and>
      fft X ''C2C'' True = Inr (ComplexArray (times_int sample_row (1 * 2))))"
proof -
  have 1: "well_formed sample_row" "2 \<le> length (shape sample_row)"
    "1 = last (butlast (shape sample_row))" "2 = last (shape sample_row)"
    by (simp_all add: sample_row_def well_formed_def)
  have 2: "last (butlast (shape sample_row)) = 1" "last (shape sample_row) = 2"
    by (simp_all add: sample_row_def)
  from fft_round_trip_scales_by_the_size [OF 1]
  have "\<exists>X. fft sample_row ''C2C'' False = Inr (ComplexArray X) \<and>
      fft X ''C2C'' True = Inr (ComplexArray (times_int sample_row (1 * 2)))"
    by simp
  with 1(1,2) 2 show ?thesis by blast
qed

text \<open>
  C5 as stated fails on the array \<open>[[1, 0]]\<close>: its transform is \<open>[[1, 1]]\<close>, and the
  inverse transform of the backend makes \<open>[[2, 0]]\<close> of that.
\<close>

theorem fft_round_trip_doubles_a_row:
  "fft sample_row ''C2C'' False = Inr (ComplexArray sample_row_transform) \<and>
   fft sample_row_transform ''C2C'' True = Inr (ComplexArray sample_row_doubled) \<and>
   sample_row_doubled \<noteq> sample_row"
  using sample_row_forward sample_row_back
  by (simp add: sample_row_doubled_def sample_row_def)


section \<open>Subsampling in the Fourier domain\<close>

lemma sum_by_aliases:
  fixes g :: "nat \<Rightarrow> complex"
  shows "(\<Sum>m<k * M'. g m) = (\<Sum>i<M'. \<Sum>p<k. g (i + p * M'))"
proof -
  have "(\<Sum>m<k * M'. g m) = (\<Sum>p<k. sum g {p * M'..<p * M' + M'})"
    by (rule sum.nat_group [symmetric])
  also have "\<dots> = (\<Sum>p<k. \<Sum>i<M'. g (i + p * M'))"
  proof (rule sum.cong [OF refl])
    fix p
    have "sum g {p * M'..<p * M' + M'} = sum g {0 + p * M'..<M' + p * M'}"
      by (simp add: add.commute)
    also have "\<dots> = (\<Sum>i = 0..<M'. g (i + p * M'))"
      by (rule sum.shift_bounds_nat_ivl)
    finally show "sum g {p * M'..<p * M' + M'} = (\<Sum>i<M'. g (i + p * M'))"
      by (simp add: atLeast0LessThan)
  qed
  also have "\<dots> = (\<Sum>i<M'. \<Sum>p<k. g (i + p * M'))"
    by (rule sum.swap)
  finally show ?thesis .
qed

lemma cis_alias:
  assumes "0 < k" "0 < M'"
  shows "cis (2 * pi * (real (k * i) * real (i' + p * M') / real (k * M'))) =
         cis (2 * pi * (real i * real i' / real M'))"
proof -
  have "2 * pi * (real (k * i) * real (i' + p * M') / real (k * M')) =
        2 * pi * (real i * real i' / real M') + 2 * pi * real (i * p)"
    using assms by (simp add: field_simps)
  then have "cis (2 * pi * (real (k * i) * real (i' + p * M') / real (k * M'))) =
        cis (2 * pi * (real i * real i' / real M')) * cis (2 * pi * real (i * p))"
    by (simp only: cis_mult)
  then show ?thesis by simp
qed


lemma decimation_core:
  fixes X :: "nat \<Rightarrow> nat \<Rightarrow> complex"
  assumes k: "0 < k" and M': "0 < M'" and N': "0 < N'"
  shows "(\<Sum>i'<M'. \<Sum>j'<N'.
            ((\<Sum>p<k. \<Sum>q<k. X (i' + p * M') (j' + q * N')) / of_nat (k * k)) *
            cis (1 * (2 * pi) * (real i * real i' / real M' + real j * real j' / real N'))) /
          of_nat (M' * N') =
         (\<Sum>m<k * M'. \<Sum>n<k * N'. X m n *
            cis (1 * (2 * pi) *
              (real (k * i) * real m / real (k * M') + real (k * j) * real n / real (k * N')))) /
          of_nat (k * M' * (k * N'))"
proof -
  define c where "c i' j' = cis (2 * pi * (real i * real i' / real M')) *
      cis (2 * pi * (real j * real j' / real N'))" for i' j'
  have small: "cis (1 * (2 * pi) * (real i * real i' / real M' + real j * real j' / real N')) =
      c i' j'" for i' j'
    by (simp add: c_def cis_mult algebra_simps)
  have big: "cis (1 * (2 * pi) *
        (real (k * i) * real (i' + p * M') / real (k * M') +
         real (k * j) * real (j' + q * N') / real (k * N'))) = c i' j'" for i' j' p q
  proof -
    have "cis (1 * (2 * pi) *
        (real (k * i) * real (i' + p * M') / real (k * M') +
         real (k * j) * real (j' + q * N') / real (k * N'))) =
        cis (2 * pi * (real (k * i) * real (i' + p * M') / real (k * M'))) *
        cis (2 * pi * (real (k * j) * real (j' + q * N') / real (k * N')))"
      by (simp only: cis_mult mult_1 distrib_left)
    then show ?thesis
      by (simp only: cis_alias [OF k M'] cis_alias [OF k N'] c_def)
  qed
  let ?S = "\<lambda>i' j'. \<Sum>p<k. \<Sum>q<k. X (i' + p * M') (j' + q * N')"
  have "(\<Sum>m<k * M'. \<Sum>n<k * N'. X m n *
            cis (1 * (2 * pi) *
              (real (k * i) * real m / real (k * M') + real (k * j) * real n / real (k * N')))) =
        (\<Sum>i'<M'. \<Sum>p<k. \<Sum>j'<N'. \<Sum>q<k. X (i' + p * M') (j' + q * N') * c i' j')"
    by (simp only: sum_by_aliases [of _ k M'] sum_by_aliases [of _ k N'] big)
  also have "\<dots> = (\<Sum>i'<M'. \<Sum>j'<N'. \<Sum>p<k. \<Sum>q<k. X (i' + p * M') (j' + q * N') * c i' j')"
    by (rule sum.cong [OF refl]) (rule sum.swap)
  also have "\<dots> = (\<Sum>i'<M'. \<Sum>j'<N'. ?S i' j' * c i' j')"
    by (simp only: sum_distrib_right)
  finally have rhs: "(\<Sum>m<k * M'. \<Sum>n<k * N'. X m n *
            cis (1 * (2 * pi) *
              (real (k * i) * real m / real (k * M') + real (k * j) * real n / real (k * N')))) =
        (\<Sum>i'<M'. \<Sum>j'<N'. ?S i' j' * c i' j')" .
  have "(\<Sum>i'<M'. \<Sum>j'<N'. (?S i' j' / of_nat (k * k)) *
            cis (1 * (2 * pi) * (real i * real i' / real M' + real j * real j' / real N'))) =
        (\<Sum>i'<M'. \<Sum>j'<N'. ?S i' j' * c i' j' / of_nat (k * k))"
    by (simp only: small times_divide_eq_left)
  also have "\<dots> = (\<Sum>i'<M'. \<Sum>j'<N'. ?S i' j' * c i' j') / of_nat (k * k)"
    by (simp only: sum_divide_distrib)
  finally show ?thesis
    unfolding rhs by (simp add: field_simps)
qed


lemma entry4:
  "shape a = [B, C, M, N] \<Longrightarrow>
   entry a [b, c, m, n] = data a ! ((b * C + c) * (M * N) + m * N + n)"
  by (simp add: entry_def ravel4 algebra_simps)

lemma axes_of_four:
  "shape a = [B, C, M, N] \<Longrightarrow> 0 < M \<Longrightarrow> 0 < N \<Longrightarrow> fft_axes_check a = Inr (M, N)"
  by (simp add: fft_axes_check_def)

lemma ifft2_entry:
  assumes sh: "shape a = [B, C, M, N]" and wf: "well_formed a" and pos: "0 < M" "0 < N"
    and y: "np_ifft2 a = Inr y"
    and idx: "b < B" "c < C" "m < M" "n < N"
  shows "entry y [b, c, m, n] =
     (\<Sum>m'<M. \<Sum>n'<N. data a ! ((b * C + c) * (M * N) + m' * N + n') *
        cis (1 * (2 * pi) * (real m * real m' / real M + real n * real n' / real N))) /
     of_nat (M * N)"
proof -
  let ?g = "(b * C + c) * (M * N) + m * N + n"
  have ck: "fft_axes_check a = Inr (M, N)"
    using sh pos by (rule axes_of_four)
  have yd: "y = \<lparr>shape = shape a,
      data = map (\<lambda>f. dft2_entry 1 a f / of_nat (M * N)) [0..<length (data a)]\<rparr>"
    using y by (simp add: np_ifft2_def ck)
  have "b * C + c < B * C"
    using idx(1,2) by (rule step_bound)
  then have "?g < B * C * M * N"
    using idx(3,4) by (rule flat_bound)
  then have lt: "?g < length (data a)"
    using wf by (simp add: well_formed_def sh mult.assoc)
  have last: "last (shape a) = N" "last (butlast (shape a)) = M"
    by (simp_all add: sh)
  have "entry y [b, c, m, n] = data y ! ?g"
    by (rule entry4) (simp add: yd sh)
  also have "\<dots> = dft2_entry 1 a ?g / of_nat (M * N)"
    using lt by (simp add: yd)
  also have "dft2_entry 1 a ?g =
     (\<Sum>m'<M. \<Sum>n'<N. data a ! ((b * C + c) * (M * N) + m' * N + n') *
        cis (1 * (2 * pi) * (real m * real m' / real M + real n * real n' / real N)))"
    by (simp only: dft2_entry_sum [OF last] flat_parts [OF idx(3,4)])
  finally show ?thesis .
qed

text \<open>
  C8, as the code has it. For a complex array of shape \<open>(B, C, M, N)\<close> with \<open>M\<close> and
  \<open>N\<close> positive and a positive \<open>k\<close> that divides both, \<open>SubsampleFourier\<close> returns
  an array of shape \<open>(B, C, M/k, N/k)\<close> whose entry at \<open>(b, c, i, j)\<close> is the mean of
  the \<open>k * k\<close> aliases \<open>x[b, c, i + p * (M/k), j + q * (N/k)]\<close>; and the inverse
  transform of the result is the inverse transform of \<open>x\<close> taken at every \<open>k\<close>-th
  row and column. Arithmetic is exact.
\<close>

theorem SubsampleFourier_averages_the_aliases:
  fixes x :: "complex array"
  assumes sh: "shape x = [B, C, M, N]" and wf: "well_formed x"
    and k: "0 < k" "k dvd M" "k dvd N" and pos: "0 < M" "0 < N"
  shows "\<exists>out. SubsampleFourier x (int k) = Inr out \<and>
     shape out = [B, C, M div k, N div k] \<and> well_formed out \<and>
     (\<forall>b<B. \<forall>c<C. \<forall>i<M div k. \<forall>j<N div k.
        entry out [b, c, i, j] =
          (\<Sum>p<k. \<Sum>q<k. entry x [b, c, i + p * (M div k), j + q * (N div k)]) /
            of_nat (k * k)) \<and>
     (\<exists>y yo. np_ifft2 x = Inr y \<and> np_ifft2 out = Inr yo \<and>
        (\<forall>b<B. \<forall>c<C. \<forall>i<M div k. \<forall>j<N div k.
           entry yo [b, c, i, j] = entry y [b, c, k * i, k * j]))"
proof -
  define M' N' where "M' = M div k" and "N' = N div k"
  have M: "M = k * M'" and N: "N = k * N'"
    using k by (simp_all add: M'_def N'_def)
  have M': "0 < M'" using M pos by (cases "M' = 0") auto
  have N': "0 < N'" using N pos by (cases "N' = 0") auto
  from SubsampleFourier_entries [OF sh k pos]
  obtain out where out: "SubsampleFourier x (int k) = Inr out"
    and sho: "shape out = [B, C, M', N']" and wfo: "well_formed out"
    and ent: "\<And>b c i j. b < B \<Longrightarrow> c < C \<Longrightarrow> i < M' \<Longrightarrow> j < N' \<Longrightarrow>
        entry out [b, c, i, j] =
          (\<Sum>p<k. \<Sum>q<k. entry x [b, c, i + p * M', j + q * N']) / of_nat (k * k)"
    unfolding M'_def N'_def by blast
  obtain y where y: "np_ifft2 x = Inr y"
    by (simp add: np_ifft2_def axes_of_four [OF sh pos])
  obtain yo where yo: "np_ifft2 out = Inr yo"
    by (simp add: np_ifft2_def axes_of_four [OF sho M' N'])
  have dec: "entry yo [b, c, i, j] = entry y [b, c, k * i, k * j]"
    if idx: "b < B" "c < C" "i < M'" "j < N'" for b c i j
  proof -
    let ?l = "b * C + c"
    let ?X = "\<lambda>m n. data x ! (?l * (k * M' * (k * N')) + m * (k * N') + n)"
    have big: "k * i < k * M'" "k * j < k * N'"
      using idx k(1) by simp_all
    have "entry yo [b, c, i, j] =
        (\<Sum>i'<M'. \<Sum>j'<N'. data out ! (?l * (M' * N') + i' * N' + j') *
           cis (1 * (2 * pi) * (real i * real i' / real M' + real j * real j' / real N'))) /
        of_nat (M' * N')"
      by (rule ifft2_entry [OF sho wfo M' N' yo idx])
    also have "\<dots> =
        (\<Sum>i'<M'. \<Sum>j'<N'.
           ((\<Sum>p<k. \<Sum>q<k. ?X (i' + p * M') (j' + q * N')) / of_nat (k * k)) *
           cis (1 * (2 * pi) * (real i * real i' / real M' + real j * real j' / real N'))) /
        of_nat (M' * N')"
    proof (rule arg_cong [where f = "\<lambda>s. s / of_nat (M' * N')"],
        rule sum.cong [OF refl], rule sum.cong [OF refl])
      fix i' j'
      assume that: "i' \<in> {..<M'}" "j' \<in> {..<N'}"
      have "data out ! (?l * (M' * N') + i' * N' + j') =
          (\<Sum>p<k. \<Sum>q<k. ?X (i' + p * M') (j' + q * N')) / of_nat (k * k)"
      proof -
        have "data out ! (?l * (M' * N') + i' * N' + j') = entry out [b, c, i', j']"
          by (rule entry4 [OF sho, symmetric])
        also have "\<dots> =
            (\<Sum>p<k. \<Sum>q<k. entry x [b, c, i' + p * M', j' + q * N']) / of_nat (k * k)"
          using that idx by (intro ent) simp_all
        also have "\<dots> = (\<Sum>p<k. \<Sum>q<k. ?X (i' + p * M') (j' + q * N')) / of_nat (k * k)"
          using sh by (simp only: entry4 [of x B C "k * M'" "k * N'"] M N)
        finally show ?thesis .
      qed
      then show "data out ! (?l * (M' * N') + i' * N' + j') *
          cis (1 * (2 * pi) * (real i * real i' / real M' + real j * real j' / real N')) =
          (\<Sum>p<k. \<Sum>q<k. ?X (i' + p * M') (j' + q * N')) / of_nat (k * k) *
          cis (1 * (2 * pi) * (real i * real i' / real M' + real j * real j' / real N'))"
        by (simp only:)
    qed
    also have "\<dots> =
        (\<Sum>m<k * M'. \<Sum>n<k * N'. ?X m n *
           cis (1 * (2 * pi) *
             (real (k * i) * real m / real (k * M') + real (k * j) * real n / real (k * N')))) /
        of_nat (k * M' * (k * N'))"
      by (rule decimation_core [OF k(1) M' N'])
    also have "\<dots> = entry y [b, c, k * i, k * j]"
      using ifft2_entry [of x B C "k * M'" "k * N'" y b c "k * i" "k * j"]
        sh wf pos y idx(1,2) big
      by (simp only: M N)
    finally show ?thesis .
  qed
  show ?thesis
    using out sho wfo ent y yo dec unfolding M'_def N'_def by blast
qed

theorem SubsampleFourier_averages_the_aliases_witness:
  "shape sample_spectrum = [1, 1, 2, 2] \<and> well_formed sample_spectrum \<and>
   (0::nat) < 2 \<and> (2::nat) dvd 2 \<and>
   (\<exists>out. SubsampleFourier sample_spectrum 2 = Inr out \<and> shape out = [1, 1, 1, 1] \<and>
      well_formed out \<and> entry out [0, 0, 0, 0] = 5 / 2)"
proof -
  have sh: "shape sample_spectrum = [1, 1, 2, 2]"
    by (simp add: sample_spectrum_def)
  have wf: "well_formed sample_spectrum"
    by (simp add: sample_spectrum_def well_formed_def)
  from SubsampleFourier_averages_the_aliases [OF sh wf, of 2]
  obtain out where out: "SubsampleFourier sample_spectrum (int 2) = Inr out"
      "shape out = [1, 1, 2 div 2, 2 div 2]" "well_formed out"
    and ent: "\<forall>b<1. \<forall>c<1. \<forall>i<2 div 2. \<forall>j<2 div 2.
        entry out [b, c, i, j] =
          (\<Sum>p<2. \<Sum>q<2. entry sample_spectrum [b, c, i + p * (2 div 2), j + q * (2 div 2)]) /
            of_nat (2 * 2)"
    by auto
  from ent have "entry out [0, 0, 0, 0] =
      (\<Sum>p<2. \<Sum>q<2. entry sample_spectrum [0, 0, p, q]) / 4"
    by simp
  also have "\<dots> = 5 / 2"
    by (simp add: entry_def ravel_def sample_spectrum_def numeral_2_eq_2)
  finally show ?thesis
    using out sh wf by auto
qed

text \<open>
  C8 as stated fails on an array with an empty spatial axis: \<open>k = 2\<close> divides
  \<open>M = 0\<close>, and \<open>x.shape[2] // out.shape[2]\<close> divides by zero.
\<close>

theorem SubsampleFourier_on_empty_rows_divides_by_zero:
  "shape empty_rows = [1, 1, 0, 4] \<and> well_formed empty_rows \<and>
   (0::nat) < 2 \<and> (2::nat) dvd 0 \<and> (2::nat) dvd 4 \<and>
   SubsampleFourier empty_rows 2 = Inl ZeroDivisionError"
  by (simp add: empty_rows_def well_formed_def SubsampleFourier_def py_index_def floordiv_def)


section \<open>The modes of fft\<close>

text \<open>
  The position of the entry at the leading indices \<open>b\<close> and the last two indices
  \<open>(u, v)\<close>, and the entries of numpy's transforms there.
\<close>

lemma ravel_snoc2:
  "length b = length bs \<Longrightarrow>
   ravel (bs @ [M, N]) (b @ [u, v]) = ravel bs b * (M * N) + u * N + v"
  by (simp add: ravel_def algebra_simps)

lemma ravel_fold_bound:
  "list_all2 (<) b bs \<Longrightarrow>
   foldl (\<lambda>acc (d, i). acc * d + i) (acc::nat) (zip bs b) < (acc + 1) * prod_list bs"
proof (induction arbitrary: acc rule: list_all2_induct)
  case Nil
  then show ?case by simp
next
  case (Cons i js d ds)
  have 1: "foldl (\<lambda>acc (d, i). acc * d + i) (acc * d + i) (zip ds js) <
      (acc * d + i + 1) * prod_list ds"
    by (rule Cons.IH)
  have "acc * d + i + 1 \<le> (acc + 1) * d"
    using Cons.hyps(1) by (simp add: Suc_le_eq)
  then have 2: "(acc * d + i + 1) * prod_list ds \<le> (acc + 1) * d * prod_list ds"
    by (rule mult_le_mono1)
  from 1 2 have "foldl (\<lambda>acc (d, i). acc * d + i) (acc * d + i) (zip ds js) <
      (acc + 1) * d * prod_list ds"
    by (rule less_le_trans)
  then show ?case
    by (simp add: algebra_simps)
qed

lemma ravel_bound: "list_all2 (<) b bs \<Longrightarrow> ravel bs b < prod_list bs"
  using ravel_fold_bound [of b bs 0] by (simp add: ravel_def)

lemma cis_as_exp:
  "cis (sg * (2 * pi) * (real u * real m / real M + real v * real n / real N)) =
   exp (of_real sg * (2 * of_real pi * \<i>) *
     (of_nat (u * m) / of_nat M + of_nat (v * n) / of_nat N))"
  by (simp add: cis_conv_exp algebra_simps)

lemma dft2_entry_at:
  assumes sh: "shape x = bs @ [M, N]" and b: "list_all2 (<) b bs" and u: "u < M" and v: "v < N"
  shows "dft2_entry sg x (ravel (shape x) (b @ [u, v])) =
     (\<Sum>m<M. \<Sum>n<N. entry x (b @ [m, n]) *
        exp (of_real sg * (2 * of_real pi * \<i>) *
          (of_nat (u * m) / of_nat M + of_nat (v * n) / of_nat N)))"
proof -
  let ?l = "ravel bs b"
  have len: "length b = length bs"
    using b by (rule list_all2_lengthD)
  have last: "last (shape x) = N" "last (butlast (shape x)) = M"
    by (simp_all add: sh butlast_append)
  have f: "ravel (shape x) (b @ [u, v]) = ?l * (M * N) + u * N + v"
    by (simp only: sh ravel_snoc2 [OF len])
  have e: "entry x (b @ [m, n]) = data x ! (?l * (M * N) + m * N + n)" for m n
    by (simp only: entry_def sh ravel_snoc2 [OF len])
  show ?thesis
    by (simp only: f dft2_entry_sum [OF last] flat_parts [OF u v] e cis_as_exp)
qed

lemma index_in_data:
  assumes wf: "well_formed x" and sh: "shape x = bs @ [M, N]"
    and b: "list_all2 (<) b bs" and u: "u < M" and v: "v < N"
  shows "ravel (shape x) (b @ [u, v]) < length (data x)"
proof -
  have len: "length b = length bs"
    using b by (rule list_all2_lengthD)
  have "ravel bs b * (M * N) + u * N + v < prod_list bs * M * N"
    using ravel_bound [OF b] u v by (rule flat_bound)
  then show ?thesis
    using wf by (simp add: well_formed_def sh ravel_snoc2 [OF len] mult.assoc)
qed

lemma axes_of_shape:
  "shape x = bs @ [M, N] \<Longrightarrow> 0 < M \<Longrightarrow> 0 < N \<Longrightarrow> fft_axes_check x = Inr (M, N)"
  by (simp add: fft_axes_check_def butlast_append)


lemma forward_entries:
  assumes wf: "well_formed x" and sh: "shape x = bs @ [M, N]" and pos: "0 < M" "0 < N"
  shows "\<exists>F. fft x ''C2C'' False = Inr (ComplexArray F) \<and> shape F = shape x \<and>
     well_formed F \<and>
     (\<forall>b u v. list_all2 (<) b bs \<and> u < M \<and> v < N \<longrightarrow>
        entry F (b @ [u, v]) = forward_transform x b u v)"
proof -
  let ?F = "\<lparr>shape = shape x, data = map (dft2_entry (- 1) x) [0..<length (data x)]\<rparr>"
  have ck: "fft_axes_check x = Inr (M, N)"
    using sh pos by (rule axes_of_shape)
  have last: "last (shape x) = N" "last (butlast (shape x)) = M"
    by (simp_all add: sh butlast_append)
  have fwd: "fft x ''C2C'' False = Inr (ComplexArray ?F)"
    by (simp add: fft_def np_fft2_def ck)
  have wfF: "well_formed ?F"
    using wf by (simp add: well_formed_def)
  have "entry ?F (b @ [u, v]) = forward_transform x b u v"
    if b: "list_all2 (<) b bs" and u: "u < M" and v: "v < N" for b u v
  proof -
    have "entry ?F (b @ [u, v]) = dft2_entry (- 1) x (ravel (shape x) (b @ [u, v]))"
      using index_in_data [OF wf sh b u v] by (simp add: entry_def)
    also have "\<dots> = forward_transform x b u v"
      by (simp add: dft2_entry_at [OF sh b u v] forward_transform_def last)
    finally show ?thesis .
  qed
  with fwd wfF show ?thesis
    by (intro exI [of _ ?F]) simp
qed

lemma unnormalized_entries:
  assumes wf: "well_formed x" and sh: "shape x = bs @ [M, N]"
    and b: "list_all2 (<) b bs" and u: "u < M" and v: "v < N"
  shows "entry (unnormalized_ifft2 x) (b @ [u, v]) = unnormalized_inverse_transform x b u v"
proof -
  have last: "last (shape x) = N" "last (butlast (shape x)) = M"
    by (simp_all add: sh butlast_append)
  have "entry (unnormalized_ifft2 x) (b @ [u, v]) =
      dft2_entry 1 x (ravel (shape x) (b @ [u, v]))"
    using index_in_data [OF wf sh b u v] by (simp add: entry_def unnormalized_ifft2_def)
  also have "\<dots> = unnormalized_inverse_transform x b u v"
    by (simp add: dft2_entry_at [OF sh b u v] unnormalized_inverse_transform_def last)
  finally show ?thesis .
qed

lemma real_entries:
  assumes wf: "well_formed x" and sh: "shape x = bs @ [M, N]"
    and b: "list_all2 (<) b bs" and u: "u < M" and v: "v < N"
  shows "entry (np_real (unnormalized_ifft2 x)) (b @ [u, v]) =
     Re (unnormalized_inverse_transform x b u v)"
proof -
  have "entry (np_real (unnormalized_ifft2 x)) (b @ [u, v]) =
      Re (entry (unnormalized_ifft2 x) (b @ [u, v]))"
    using index_in_data [OF wf sh b u v]
    by (simp add: entry_def np_real_def unnormalized_ifft2_def)
  then show ?thesis
    by (simp only: unnormalized_entries [OF assms])
qed

lemma sample_row_sums:
  "forward_transform sample_row [] 0 (Suc 0) = 1"
  "unnormalized_inverse_transform sample_row [] 0 (Suc 0) = 1"
  by (simp_all add: forward_transform_def unnormalized_inverse_transform_def sample_row_def
      entry_def ravel_def lessThan_Suc numeral_2_eq_2)

text \<open>
  C10, as the code has it. \<open>fft\<close> raises a \<open>RuntimeError\<close> exactly when it is called
  with \<open>direction = 'C2R'\<close> and \<open>inverse = False\<close>, for every array and before any
  transform. For a complex array of at least two axes whose last two axes, of lengths
  \<open>M\<close> and \<open>N\<close>, are not empty, the mode \<open>'C2R'\<close> with \<open>inverse = True\<close> returns
  the real part of the unnormalized inverse transform, and the mode \<open>'C2C'\<close> returns the
  unnormalized inverse transform with \<open>inverse = True\<close> and the forward transform with
  \<open>inverse = False\<close>: an array of the shape of the input, whose entry at every index is
  the sum that defines the transform. Arithmetic is exact.
\<close>

theorem fft_raises_runtime_error_only_for_forward_C2R:
  "((\<exists>msg. fft x direction inverse_flag = Inl (RuntimeError msg)) \<longleftrightarrow>
      direction = ''C2R'' \<and> \<not> inverse_flag) \<and>
   fft x ''C2R'' False = Inl (RuntimeError ''C2R mode can only be done with an inverse FFT.'') \<and>
   (well_formed x \<and> shape x = bs @ [M, N] \<and> 0 < M \<and> 0 < N \<longrightarrow>
      (\<exists>R. fft x ''C2R'' True = Inr (RealArray R) \<and> shape R = shape x \<and> well_formed R \<and>
         (\<forall>b u v. list_all2 (<) b bs \<and> u < M \<and> v < N \<longrightarrow>
            entry R (b @ [u, v]) = Re (unnormalized_inverse_transform x b u v))) \<and>
      (\<exists>G. fft x ''C2C'' True = Inr (ComplexArray G) \<and> shape G = shape x \<and> well_formed G \<and>
         (\<forall>b u v. list_all2 (<) b bs \<and> u < M \<and> v < N \<longrightarrow>
            entry G (b @ [u, v]) = unnormalized_inverse_transform x b u v)) \<and>
      (\<exists>F. fft x ''C2C'' False = Inr (ComplexArray F) \<and> shape F = shape x \<and> well_formed F \<and>
         (\<forall>b u v. list_all2 (<) b bs \<and> u < M \<and> v < N \<longrightarrow>
            entry F (b @ [u, v]) = forward_transform x b u v)))"
proof (intro conjI impI)
  show "(\<exists>msg. fft x direction inverse_flag = Inl (RuntimeError msg)) \<longleftrightarrow>
      direction = ''C2R'' \<and> \<not> inverse_flag"
    by (rule fft_runtime_error_iff)
  show "fft x ''C2R'' False = Inl (RuntimeError ''C2R mode can only be done with an inverse FFT.'')"
    by (simp add: fft_def)
next
  assume a: "well_formed x \<and> shape x = bs @ [M, N] \<and> 0 < M \<and> 0 < N"
  then have wf: "well_formed x" and sh: "shape x = bs @ [M, N]" and pos: "0 < M" "0 < N"
    by simp_all
  have ck: "fft_axes_check x = Inr (M, N)"
    using sh pos by (rule axes_of_shape)
  have wfG: "well_formed (unnormalized_ifft2 x)" "well_formed (np_real (unnormalized_ifft2 x))"
    using wf by (simp_all add: well_formed_def unnormalized_ifft2_def np_real_def)
  have shG: "shape (unnormalized_ifft2 x) = shape x"
    "shape (np_real (unnormalized_ifft2 x)) = shape x"
    by (simp_all add: unnormalized_ifft2_def np_real_def)
  show "\<exists>R. fft x ''C2R'' True = Inr (RealArray R) \<and> shape R = shape x \<and> well_formed R \<and>
         (\<forall>b u v. list_all2 (<) b bs \<and> u < M \<and> v < N \<longrightarrow>
            entry R (b @ [u, v]) = Re (unnormalized_inverse_transform x b u v))"
    using fft_inverse_real [OF ck] wfG(2) shG(2) real_entries [OF wf sh]
    by (intro exI [of _ "np_real (unnormalized_ifft2 x)"]) simp
  show "\<exists>G. fft x ''C2C'' True = Inr (ComplexArray G) \<and> shape G = shape x \<and> well_formed G \<and>
         (\<forall>b u v. list_all2 (<) b bs \<and> u < M \<and> v < N \<longrightarrow>
            entry G (b @ [u, v]) = unnormalized_inverse_transform x b u v)"
    using fft_inverse_complex [OF ck] wfG(1) shG(1) unnormalized_entries [OF wf sh]
    by (intro exI [of _ "unnormalized_ifft2 x"]) simp
  show "\<exists>F. fft x ''C2C'' False = Inr (ComplexArray F) \<and> shape F = shape x \<and> well_formed F \<and>
         (\<forall>b u v. list_all2 (<) b bs \<and> u < M \<and> v < N \<longrightarrow>
            entry F (b @ [u, v]) = forward_transform x b u v)"
    using wf sh pos by (rule forward_entries)
qed

theorem fft_modes_witness:
  "well_formed sample_row \<and> shape sample_row = [] @ [1, 2] \<and>
   (\<exists>R. fft sample_row ''C2R'' True = Inr (RealArray R) \<and> entry R [0, 1] = 1) \<and>
   (\<exists>G. fft sample_row ''C2C'' True = Inr (ComplexArray G) \<and> entry G [0, 1] = 1) \<and>
   (\<exists>F. fft sample_row ''C2C'' False = Inr (ComplexArray F) \<and> entry F [0, 1] = 1)"
proof -
  have wf: "well_formed sample_row" and sh: "shape sample_row = [] @ [1, 2]"
    by (simp_all add: sample_row_def well_formed_def)
  have hyp: "well_formed sample_row \<and> shape sample_row = [] @ [1, 2] \<and>
      (0::nat) < 1 \<and> (0::nat) < 2"
    using wf sh by simp
  have idx: "list_all2 (<) [] ([]::nat list) \<and> (0::nat) < 1 \<and> (1::nat) < 2"
    by simp
  note all = fft_raises_runtime_error_only_for_forward_C2R
    [of sample_row "''C2C''" False "[]" 1 2, THEN conjunct2, THEN conjunct2, THEN mp, OF hyp]
  from all [THEN conjunct1] obtain R where
    R: "fft sample_row ''C2R'' True = Inr (RealArray R)"
      "\<forall>b u v. list_all2 (<) b [] \<and> u < 1 \<and> v < 2 \<longrightarrow>
         entry R (b @ [u, v]) = Re (unnormalized_inverse_transform sample_row b u v)"
    by (elim exE conjE)
  from all [THEN conjunct2, THEN conjunct1] obtain G where
    G: "fft sample_row ''C2C'' True = Inr (ComplexArray G)"
      "\<forall>b u v. list_all2 (<) b [] \<and> u < 1 \<and> v < 2 \<longrightarrow>
         entry G (b @ [u, v]) = unnormalized_inverse_transform sample_row b u v"
    by (elim exE conjE)
  from all [THEN conjunct2, THEN conjunct2] obtain F where
    F: "fft sample_row ''C2C'' False = Inr (ComplexArray F)"
      "\<forall>b u v. list_all2 (<) b [] \<and> u < 1 \<and> v < 2 \<longrightarrow>
         entry F (b @ [u, v]) = forward_transform sample_row b u v"
    by (elim exE conjE)
  from R(2) [rule_format, OF idx]
  have r: "entry R [0, 1] = 1"
    by (simp add: sample_row_sums)
  from G(2) [rule_format, OF idx]
  have g: "entry G [0, 1] = 1"
    by (simp add: sample_row_sums)
  from F(2) [rule_format, OF idx]
  have f: "entry F [0, 1] = 1"
    by (simp add: sample_row_sums)
  from R(1) r have 1: "\<exists>R. fft sample_row ''C2R'' True = Inr (RealArray R) \<and> entry R [0, 1] = 1"
    by (intro exI conjI)
  from G(1) g have 2: "\<exists>G. fft sample_row ''C2C'' True = Inr (ComplexArray G) \<and> entry G [0, 1] = 1"
    by (intro exI conjI)
  from F(1) f have 3: "\<exists>F. fft sample_row ''C2C'' False = Inr (ComplexArray F) \<and> entry F [0, 1] = 1"
    by (intro exI conjI)
  from wf sh 1 2 3 show ?thesis
    by (intro conjI)
qed

text \<open>
  C10 as stated fails on an image without rows: numpy's transforms refuse an empty axis,
  and each of the three modes that are said to return a transform raises a
  \<open>ValueError\<close> instead.
\<close>

theorem fft_of_an_empty_image_raises_value_error:
  "well_formed empty_image \<and>
   fft empty_image ''C2C'' False =
     Inl (ValueError ''Invalid number of FFT data points (0) specified.'') \<and>
   fft empty_image ''C2C'' True =
     Inl (ValueError ''Invalid number of FFT data points (0) specified.'') \<and>
   fft empty_image ''C2R'' True =
     Inl (ValueError ''Invalid number of FFT data points (0) specified.'')"
  by (simp add: fft_def np_fft2_def np_ifft2_def fft_axes_check_def empty_image_def
      well_formed_def)

end
